theory Spec2Isabelle
  imports Complex_Main "HOL-Library.Multiset"
begin

section \<open>The training task of xnmt (xnmt/training_task.py)\<close>

text \<open>
  A shallow embedding of \<open>SimpleTrainingTask\<close> and \<open>TrainingState\<close>. Python integers
  are \<open>int\<close>, list positions are \<open>nat\<close>, Python floats (the decay factor, the learning
  rate, loss values) are \<open>real\<close>: rounding is not modelled, only the comparisons and the
  arithmetic the source writes. Every attribute the methods read or write is a field of
  a record, every raise is a value of \<open>error\<close>, and what the task does to the world
  outside it (subprocesses, the random generators, the event \<open>new_epoch\<close>, printing) is
  appended to the field \<open>effects\<close> in the order the source performs it.
\<close>

subsection \<open>Errors, effects and state\<close>

datatype error =
    RuntimeError string
  | TypeError
  | AttributeError
  | IndexError
  | ValueError

text \<open>
  \<open>Popen(cmd, shell=True)\<close> returns a handle whose \<open>returncode\<close> is \<open>None\<close> until
  \<open>wait()\<close> or \<open>poll()\<close> has seen the process exit.
\<close>

record popen =
  command :: string
  returncode :: "int option"

datatype event =
    Popen string
  | Wait
  | Poll
  | Print string
  | RandInt int int
  | RandomSeed int
  | NpRandomSeed int
  | Pack
  | Freeze
  | Shuffle
  | NewEpoch int nat
  | NewDev
  | SetDevScore int real
  | AuxiliaryScore real
  | ReportDev
  | TrainerRestart
  | RevertToBestModel

text \<open>\<open>class TrainingState\<close>.\<close>

record training_state =
  num_times_lr_decayed :: int
  cur_attempt :: int
  epoch_num :: int
  steps_into_epoch :: int
  epoch_seed :: int

text \<open>The optimizer: only its \<open>learning_rate\<close> is read and written here.\<close>

record trainer =
  learning_rate :: real

text \<open>
  The attributes of \<open>SimpleTrainingTask\<close>, in the order \<open>__init__\<close> sets them, then the
  trainer (set by the regimen that owns the task), the two process-wide random
  generators (\<open>random\<close> and \<open>numpy.random\<close>, of an abstract state type \<open>'g\<close>) and the
  effects. \<open>'s\<close> is the type of sentences, \<open>'b\<close> of batches. \<open>sample_train_sents\<close> is
  \<open>False\<close> or a number in the source: \<open>None\<close> stands for \<open>False\<close>.
\<close>

record ('s, 'b, 'g) task =
  model_file :: "string option"
  lr_decay :: real
  patience :: int
  initial_patience :: "int option"
  lr_decay_times :: int
  restart_trainer :: bool
  run_for_epochs :: "int option"
  early_stopping_reached :: bool
  training_state :: training_state
  reload_command :: "string option"
  augmentation_handle :: "popen option"
  sample_train_sents :: "int option"
  max_num_train_sents :: "int option"
  max_src_len :: "nat option"
  max_trg_len :: "nat option"
  src_data :: "'s list"
  trg_data :: "'s list"
  src_batches :: "'b list"
  trg_batches :: "'b list"
  minibatch_order :: "nat list"
  the_trainer :: trainer
  py_random :: 'g
  np_random :: 'g
  effects :: "event list"

definition emit :: "event \<Rightarrow> ('s, 'b, 'g) task \<Rightarrow> ('s, 'b, 'g) task" where
  "emit e t = t\<lparr>effects := effects t @ [e]\<rparr>"

text \<open>\<open>TrainingState.__init__\<close>: the seed is drawn by \<open>random.randint(1, 2147483647)\<close>.\<close>

definition init_training_state :: "int \<Rightarrow> training_state" where
  "init_training_state seed =
     \<lparr>num_times_lr_decayed = 0, cur_attempt = 0, epoch_num = 0,
      steps_into_epoch = 0, epoch_seed = seed\<rparr>"

text \<open>The check of \<open>lr_decay\<close> at the head of \<open>__init__\<close>.\<close>

definition check_lr_decay :: "real \<Rightarrow> error + real" where
  "check_lr_decay d =
     (if d > 1 \<or> d \<le> 0
      then Inl (RuntimeError ''illegal lr_decay, must satisfy: 0.0 < lr_decay <= 1.0'')
      else Inr d)"

subsection \<open>\<open>cur_num_minibatches\<close>, \<open>cur_num_sentences\<close>, \<open>should_stop_training\<close>\<close>

definition cur_num_minibatches :: "('s, 'b, 'g) task \<Rightarrow> int" where
  "cur_num_minibatches t = int (length (src_batches t))"

definition cur_num_sentences :: "('s, 'b, 'g) task \<Rightarrow> nat" where
  "cur_num_sentences t = length (src_data t)"

text \<open>
  \<open>should_stop_training\<close> is a chain of \<open>or\<close>, evaluated from the left.
  \<open>run_for_epochs\<close> defaults to \<open>None\<close>; comparing an integer with \<open>None\<close> raises
  \<open>TypeError\<close> in Python 3, which is reached only when \<open>early_stopping_reached\<close> is
  false.
\<close>

definition should_stop_training :: "('s, 'b, 'g) task \<Rightarrow> error + bool" where
  "should_stop_training t =
     (if early_stopping_reached t then Inr True
      else case run_for_epochs t of
             None \<Rightarrow> Inl TypeError
           | Some r \<Rightarrow>
               Inr (epoch_num (training_state t) > r
                    \<or> (epoch_num (training_state t) = r
                       \<and> steps_into_epoch (training_state t) \<ge> cur_num_minibatches t - 1)))"

subsection \<open>\<open>checkpoint\<close>\<close>

text \<open>
  A dev task's \<open>eval()\<close> returns one score or a list of scores. The scores of all dev
  tasks are the input \<open>evals\<close> (empty when no dev task is configured), and
  \<open>improved\<close> is what \<open>logger.report_dev_and_check_model\<close> answers: whether the
  primary dev score is the best so far.
\<close>

datatype dev_eval = Score real | Scores "real list"

fun collect_dev_scores :: "dev_eval list \<Rightarrow> real list" where
  "collect_dev_scores [] = []"
| "collect_dev_scores (Score x # es) = x # collect_dev_scores es"
| "collect_dev_scores (Scores xs # es) = xs @ collect_dev_scores es"

definition run_dev_tasks ::
  "dev_eval list \<Rightarrow> ('s, 'b, 'g) task \<Rightarrow> error + ('s, 'b, 'g) task" where
  "run_dev_tasks evals t =
     (if evals \<noteq> [] then
        (case collect_dev_scores evals of
           [] \<Rightarrow> Inl IndexError
         | d # ds \<Rightarrow>
             Inr (t\<lparr>effects := effects t @ SetDevScore 1 d # map AuxiliaryScore ds\<rparr>))
      else Inr t)"

definition set_cur_attempt :: "int \<Rightarrow> ('s, 'b, 'g) task \<Rightarrow> ('s, 'b, 'g) task" where
  "set_cur_attempt n t = t\<lparr>training_state := (training_state t)\<lparr>cur_attempt := n\<rparr>\<rparr>"

definition set_num_times_lr_decayed :: "int \<Rightarrow> ('s, 'b, 'g) task \<Rightarrow> ('s, 'b, 'g) task" where
  "set_num_times_lr_decayed n t =
     t\<lparr>training_state := (training_state t)\<lparr>num_times_lr_decayed := n\<rparr>\<rparr>"

text \<open>
  The two tests that set \<open>should_decay\<close> (lines 332 to 336), on the state whose
  \<open>cur_attempt\<close> has already been incremented.
\<close>

definition should_decay :: "('s, 'b, 'g) task \<Rightarrow> bool" where
  "should_decay t =
     (let sd = False;
          sd = (if (initial_patience t = None \<or> num_times_lr_decayed (training_state t) > 0)
                   \<and> cur_attempt (training_state t) \<ge> patience t
                then True else sd);
          sd = (case initial_patience t of
                  None \<Rightarrow> sd
                | Some ip \<Rightarrow>
                    if num_times_lr_decayed (training_state t) = 0
                       \<and> cur_attempt (training_state t) \<ge> ip
                    then True else sd)
      in sd)"

text \<open>The body of \<open>if should_decay:\<close> (lines 338 to 348).\<close>

definition apply_decay :: "('s, 'b, 'g) task \<Rightarrow> ('s, 'b, 'g) task" where
  "apply_decay t =
     (let t = set_num_times_lr_decayed (num_times_lr_decayed (training_state t) + 1) t
      in if num_times_lr_decayed (training_state t) > lr_decay_times t then
           (emit (Print ''  Early stopping'') t)\<lparr>early_stopping_reached := True\<rparr>
         else
           (let t = t\<lparr>the_trainer :=
                       (the_trainer t)\<lparr>learning_rate :=
                          learning_rate (the_trainer t) * lr_decay t\<rparr>\<rparr>;
                t = emit (Print ''  new learning rate'') t
            in if restart_trainer t then
                 emit RevertToBestModel
                   (emit TrainerRestart
                      (emit (Print ''  restarting trainer and reverting learned weights to best checkpoint..'') t))
               else t))"

definition checkpoint ::
  "bool \<Rightarrow> dev_eval list \<Rightarrow> bool \<Rightarrow> ('s, 'b, 'g) task
   \<Rightarrow> error + (bool \<times> ('s, 'b, 'g) task)" where
  "checkpoint control_learning_schedule evals improved t =
     (case run_dev_tasks evals (emit NewDev t) of
        Inl e \<Rightarrow> Inl e
      | Inr t \<Rightarrow>
          if control_learning_schedule then
            (let t = emit ReportDev (emit (Print ''> Checkpoint'') t)
             in if improved then
                  Inr (model_file t \<noteq> None, set_cur_attempt 0 t)
                else
                  (let t = set_cur_attempt (cur_attempt (training_state t) + 1) t
                   in if lr_decay t < 1 then
                        (if should_decay t then Inr (False, apply_decay t)
                         else Inr (False, t))
                      else Inr (False, t)))
          else Inr (False, t))"

subsection \<open>The collaborators\<close>

text \<open>
  What the task calls but does not define: the two corpus readers of the model (with the
  configured files), the batcher, and the library's random functions, each as a function
  of the generator state it reads, returning the state it leaves. \<open>observation\<close> is
  what the operating system answers about the augmentation subprocess during one call
  of \<open>advance_epoch\<close>: the exit code \<open>wait()\<close> returns if the process is waited for, and
  what \<open>poll()\<close> finds for a process not yet seen to exit (\<open>None\<close>: still running).
\<close>

record ('s, 'b, 'g) collab =
  count_src :: int
  count_trg :: int
  read_src :: "int list option \<Rightarrow> 's list"
  read_trg :: "int list option \<Rightarrow> 's list"
  sent_len :: "'s \<Rightarrow> nat"
  np_choice :: "'g \<Rightarrow> int \<Rightarrow> int \<Rightarrow> error + (int list \<times> 'g)"
  pack :: "'g \<Rightarrow> 'g \<Rightarrow> 's list \<Rightarrow> 's list \<Rightarrow> ('b list \<times> 'b list) \<times> 'g \<times> 'g"
  randint :: "'g \<Rightarrow> int \<Rightarrow> int \<Rightarrow> int \<times> 'g"
  random_seed :: "int \<Rightarrow> 'g"
  np_seed :: "int \<Rightarrow> 'g"
  np_shuffle :: "'g \<Rightarrow> nat list \<Rightarrow> nat list \<times> 'g"

record observation =
  wait_code :: int
  poll_code :: "int option"

subsection \<open>\<open>read_training_corpus\<close>\<close>

text \<open>
  The message of the mismatch error is built from
  \<open>src_len or self.src_reader.count_sents(...)\<close>: the task has no attribute
  \<open>src_reader\<close> (the readers belong to the model), so a count of 0 makes the raise
  an \<open>AttributeError\<close> instead of the \<open>RuntimeError\<close>.
\<close>

definition mismatch_error :: "int \<Rightarrow> int \<Rightarrow> error" where
  "mismatch_error src_len trg_len =
     (if src_len = 0 then AttributeError
      else if trg_len = 0 then AttributeError
      else RuntimeError ''training src sentences don't match trg sentences'')"

text \<open>
  The loop over \<open>zip_longest\<close> of the two streams: a pair with one side missing raises,
  a pair within the length limits is appended to both lists.
\<close>

fun read_pairs ::
  "('s, 'b, 'g) collab \<Rightarrow> error \<Rightarrow> 's list \<Rightarrow> 's list \<Rightarrow> ('s, 'b, 'g) task
   \<Rightarrow> error option \<times> ('s, 'b, 'g) task" where
  "read_pairs c err [] [] t = (None, t)"
| "read_pairs c err (src_sent # ss) (trg_sent # ts) t =
     (let src_len_ok = (case max_src_len t of None \<Rightarrow> True
                        | Some m \<Rightarrow> sent_len c src_sent \<le> m);
          trg_len_ok = (case max_trg_len t of None \<Rightarrow> True
                        | Some m \<Rightarrow> sent_len c trg_sent \<le> m)
      in read_pairs c err ss ts
           (if src_len_ok \<and> trg_len_ok
            then t\<lparr>src_data := src_data t @ [src_sent], trg_data := trg_data t @ [trg_sent]\<rparr>
            else t))"
| "read_pairs c err [] (trg_sent # ts) t = (Some err, t)"
| "read_pairs c err (src_sent # ss) [] t = (Some err, t)"

text \<open>Lines 156 to 173: read both streams, freeze the readers, pack the batches.\<close>

definition read_and_pack ::
  "('s, 'b, 'g) collab \<Rightarrow> int list option \<Rightarrow> ('s, 'b, 'g) task
   \<Rightarrow> error option \<times> ('s, 'b, 'g) task" where
  "read_and_pack c filter_ids t =
     (case read_pairs c (mismatch_error (count_src c) (count_trg c))
             (read_src c filter_ids) (read_trg c filter_ids) t of
        (Some e, t) \<Rightarrow> (Some e, t)
      | (None, t) \<Rightarrow>
          (let t = emit Freeze (emit Freeze t);
               ((sb, tb), g1, g2) = pack c (py_random t) (np_random t) (src_data t) (trg_data t)
           in (None, emit Pack (t\<lparr>src_batches := sb, trg_batches := tb,
                                   py_random := g1, np_random := g2\<rparr>))))"

text \<open>
  The result is the error raised, if any, and the task as the call leaves it: the
  source assigns to \<open>self\<close> before it raises.
\<close>

definition read_training_corpus ::
  "('s, 'b, 'g) collab \<Rightarrow> ('s, 'b, 'g) task \<Rightarrow> error option \<times> ('s, 'b, 'g) task" where
  "read_training_corpus c t =
     (let t = t\<lparr>src_data := [], trg_data := []\<rparr>;
          src_len = count_src c;
          trg_len = count_trg c;
          count_error = RuntimeError ''training src sentences don't match trg sentences''
      in if sample_train_sents t \<noteq> None \<and> sample_train_sents t \<noteq> Some 0 then
           (if src_len \<noteq> trg_len then (Some count_error, t)
            else case np_choice c (np_random t) src_len (the (sample_train_sents t)) of
                   Inl e \<Rightarrow> (Some e, t)
                 | Inr (ids, g) \<Rightarrow> read_and_pack c (Some ids) (t\<lparr>np_random := g\<rparr>))
         else if max_num_train_sents t \<noteq> None \<and> max_num_train_sents t \<noteq> Some 0 then
           (if src_len \<noteq> trg_len then (Some count_error, t)
            else read_and_pack c
                   (Some (map int [0 ..< nat (min (the (max_num_train_sents t)) trg_len)])) t)
         else read_and_pack c None t)"

subsection \<open>The augmentation subprocess\<close>

fun dec_nat :: "nat \<Rightarrow> string" where
  "dec_nat n =
     (if n < 10 then [''0123456789'' ! n]
      else dec_nat (n div 10) @ [''0123456789'' ! (n mod 10)])"

declare dec_nat.simps [simp del]

text \<open>\<open>"%d" % i\<close>.\<close>

definition fmt_d :: "int \<Rightarrow> string" where
  "fmt_d i = (if i < 0 then CHR ''-'' # dec_nat (nat (- i)) else dec_nat (nat i))"

text \<open>
  \<open>poll()\<close> asks the operating system only while \<open>returncode\<close> is \<open>None\<close>.
\<close>

definition poll :: "observation \<Rightarrow> popen \<Rightarrow> popen" where
  "poll ob h = (case returncode h of None \<Rightarrow> h\<lparr>returncode := poll_code ob\<rparr> | Some _ \<Rightarrow> h)"

text \<open>
  \<open>_augment_data_initial\<close> and \<open>_augment_data_next_epoch\<close>. With \<open>reload_command\<close>
  \<open>None\<close> the concatenation \<open>augment_command + " --epoch ..."\<close> raises \<open>TypeError\<close>.
\<close>

text \<open>
  When the subprocess has exited, line 202 reads \<open>self.corpus_parser\<close>. No method of
  the task assigns this attribute (the corpus is read by the task's own
  \<open>read_training_corpus\<close>; the line carries the comment \<open>TODO: fix\<close>), so the
  read raises \<open>AttributeError\<close>, as \<open>self.src_reader\<close> does in
  \<open>read_training_corpus\<close>. The corpus is not re-read, and lines 203 and 204, which
  would start the next subprocess, are not reached.
\<close>

definition augment_data_initial ::
  "observation \<Rightarrow> ('s, 'b, 'g) task \<Rightarrow> error + ('s, 'b, 'g) task" where
  "augment_data_initial ob t =
     (let t = emit (Print ''initial augmentation'') t
      in case augmentation_handle t of
           None \<Rightarrow>
             (case reload_command t of
                None \<Rightarrow> Inl TypeError
              | Some cmd \<Rightarrow>
                  (let h = \<lparr>command = cmd @ '' --epoch 0'', returncode = None\<rparr>;
                       t = emit (Popen (command h)) t;
                       h = h\<lparr>returncode := Some (wait_code ob)\<rparr>
                   in Inr (emit Wait (t\<lparr>augmentation_handle := Some h\<rparr>))))
         | Some h \<Rightarrow> Inr t)"

definition launch_first ::
  "observation \<Rightarrow> ('s, 'b, 'g) task \<Rightarrow> error + (popen \<times> ('s, 'b, 'g) task)" where
  "launch_first ob t =
     (case augmentation_handle t of
        None \<Rightarrow>
          (case reload_command t of
             None \<Rightarrow> Inl TypeError
           | Some cmd \<Rightarrow>
               (let h = \<lparr>command = cmd @ '' --epoch '' @ fmt_d (epoch_num (training_state t)),
                         returncode = None\<rparr>;
                    t = emit (Popen (command h)) t;
                    h = h\<lparr>returncode := Some (wait_code ob)\<rparr>
                in Inr (h, emit Wait (t\<lparr>augmentation_handle := Some h\<rparr>))))
      | Some h \<Rightarrow> Inr (h, t))"

definition augment_data_next_epoch ::
  "observation \<Rightarrow> ('s, 'b, 'g) task \<Rightarrow> error + ('s, 'b, 'g) task" where
  "augment_data_next_epoch ob t =
     (case launch_first ob t of
        Inl e \<Rightarrow> Inl e
      | Inr (h, t) \<Rightarrow>
          (let h = poll ob h;
               t = emit Poll (t\<lparr>augmentation_handle := Some h\<rparr>)
           in case returncode h of
                Some retcode \<Rightarrow>
                  (let t = (if epoch_num (training_state t) > 0
                            then emit (Print ''using reloaded data'') t else t)
                   in Inl AttributeError)
              | None \<Rightarrow>
                  Inr (emit (Print ''new data set is not ready yet, using data from last epoch.'') t)))"

subsection \<open>\<open>advance_epoch\<close>\<close>

text \<open>Lines 243 to 252, after the optional call of \<open>_augment_data_next_epoch\<close>.\<close>

definition start_epoch :: "('s, 'b, 'g) collab \<Rightarrow> ('s, 'b, 'g) task \<Rightarrow> ('s, 'b, 'g) task" where
  "start_epoch c t =
     (let (seed, g) = randint c (py_random t) 1 2147483647;
          t = emit (RandInt 1 2147483647)
                (t\<lparr>training_state := (training_state t)\<lparr>epoch_seed := seed\<rparr>, py_random := g\<rparr>);
          t = emit (RandomSeed (epoch_seed (training_state t)))
                (t\<lparr>py_random := random_seed c (epoch_seed (training_state t))\<rparr>);
          t = emit (NpRandomSeed (epoch_seed (training_state t)))
                (t\<lparr>np_random := np_seed c (epoch_seed (training_state t))\<rparr>);
          ((sb, tb), g1, g2) = pack c (py_random t) (np_random t) (src_data t) (trg_data t);
          t = emit Pack (t\<lparr>src_batches := sb, trg_batches := tb,
                            py_random := g1, np_random := g2\<rparr>);
          t = t\<lparr>training_state :=
                  (training_state t)\<lparr>epoch_num := epoch_num (training_state t) + 1\<rparr>\<rparr>;
          t = t\<lparr>training_state := (training_state t)\<lparr>steps_into_epoch := 0\<rparr>\<rparr>;
          t = t\<lparr>minibatch_order := [0 ..< nat (cur_num_minibatches t)]\<rparr>;
          (order, g) = np_shuffle c (np_random t) (minibatch_order t);
          t = emit Shuffle (t\<lparr>minibatch_order := order, np_random := g\<rparr>)
      in emit (NewEpoch (epoch_num (training_state t)) (cur_num_sentences t)) t)"

definition advance_epoch ::
  "('s, 'b, 'g) collab \<Rightarrow> observation \<Rightarrow> ('s, 'b, 'g) task \<Rightarrow> error + ('s, 'b, 'g) task" where
  "advance_epoch c ob t =
     (if reload_command t \<noteq> None then
        (case augment_data_next_epoch ob t of
           Inl e \<Rightarrow> Inl e
         | Inr t \<Rightarrow> Inr (start_epoch c t))
      else Inr (start_epoch c t))"

subsection \<open>The generator \<open>next_minibatch\<close>\<close>

text \<open>
  A generator is its frame: not yet started, or suspended at the \<open>yield\<close> with the
  batch numbers the \<open>for\<close> loop has still to visit. One \<open>next()\<close> on it is
  \<open>next_minibatch\<close>: it resumes after the \<open>yield\<close> (incrementing
  \<open>steps_into_epoch\<close>), and runs to the next \<open>yield\<close>. The \<open>while True\<close> loop calls
  \<open>advance_epoch\<close> once per turn and has no bound on its turns, so a pull is given the
  observations for the calls it may make, one each: it is \<open>None\<close> when they run out
  before a \<open>yield\<close> or a raise is reached.
\<close>

datatype frame = NotStarted | AtYield "nat list"

definition yield_batch ::
  "nat \<Rightarrow> nat list \<Rightarrow> ('s, 'b, 'g) task \<Rightarrow> error + (('b \<times> 'b) \<times> frame \<times> ('s, 'b, 'g) task)" where
  "yield_batch batch_num rest t =
     (if batch_num < length (src_batches t) then
        (if batch_num < length (trg_batches t) then
           Inr ((src_batches t ! batch_num, trg_batches t ! batch_num), AtYield rest, t)
         else Inl IndexError)
      else Inl IndexError)"

fun epoch_loop ::
  "('s, 'b, 'g) collab \<Rightarrow> observation list \<Rightarrow> ('s, 'b, 'g) task
   \<Rightarrow> (error + (('b \<times> 'b) \<times> frame \<times> ('s, 'b, 'g) task)) option" where
  "epoch_loop c [] t = None"
| "epoch_loop c (ob # obs) t =
     (case advance_epoch c ob t of
        Inl e \<Rightarrow> Some (Inl e)
      | Inr t \<Rightarrow>
          (case minibatch_order t of
             [] \<Rightarrow> epoch_loop c obs t
           | batch_num # rest \<Rightarrow> Some (yield_batch batch_num rest t)))"

definition next_minibatch ::
  "('s, 'b, 'g) collab \<Rightarrow> observation list \<Rightarrow> frame \<Rightarrow> ('s, 'b, 'g) task
   \<Rightarrow> (error + (('b \<times> 'b) \<times> frame \<times> ('s, 'b, 'g) task)) option" where
  "next_minibatch c obs fr t =
     (case fr of
        NotStarted \<Rightarrow> epoch_loop c obs t
      | AtYield rest \<Rightarrow>
          (let t = t\<lparr>training_state :=
                      (training_state t)\<lparr>steps_into_epoch :=
                         steps_into_epoch (training_state t) + 1\<rparr>\<rparr>
           in case rest of
                batch_num # rest \<Rightarrow> Some (yield_batch batch_num rest t)
              | [] \<Rightarrow> epoch_loop c obs t))"

subsection \<open>\<open>training_step\<close>\<close>

text \<open>
  Loss values are nodes of the computation graph: \<open>+\<close>, unary \<open>-\<close> and
  \<open>dy.nobackprop\<close> build nodes. \<open>eval_expr\<close> is the number a node evaluates to,
  \<open>backprop_inputs\<close> the inputs a gradient reaches from it.
\<close>

datatype expr =
    Input real
  | Add expr expr
  | Neg expr
  | NoBackprop expr
  | ESum "expr list"

fun eval_expr :: "expr \<Rightarrow> real" where
  "eval_expr (Input x) = x"
| "eval_expr (Add a b) = eval_expr a + eval_expr b"
| "eval_expr (Neg a) = - eval_expr a"
| "eval_expr (NoBackprop a) = eval_expr a"
| "eval_expr (ESum es) = sum_list (map eval_expr es)"

fun backprop_inputs :: "expr \<Rightarrow> real list" where
  "backprop_inputs (Input x) = [x]"
| "backprop_inputs (Add a b) = backprop_inputs a @ backprop_inputs b"
| "backprop_inputs (Neg a) = backprop_inputs a"
| "backprop_inputs (NoBackprop a) = []"
| "backprop_inputs (ESum es) = concat (map backprop_inputs es)"

text \<open>
  Modelled from the spec: \<open>LossBuilder\<close> (xnmt/loss.py) is not among the sources. It is
  the loss record of the spec, "a mapping from loss-component name to scalar value,
  plus a combined total": \<open>add_loss\<close> records a named term, \<open>compute\<close> is the sum of the
  recorded terms.
\<close>

record loss_builder =
  loss_nodes :: "(string \<times> expr) list"

definition new_loss_builder :: loss_builder where
  "new_loss_builder = \<lparr>loss_nodes = []\<rparr>"

definition add_loss :: "string \<Rightarrow> expr \<Rightarrow> loss_builder \<Rightarrow> loss_builder" where
  "add_loss loss_name loss_expr lb = lb\<lparr>loss_nodes := loss_nodes lb @ [(loss_name, loss_expr)]\<rparr>"

definition compute :: "loss_builder \<Rightarrow> expr" where
  "compute lb = ESum (map snd (loss_nodes lb))"

text \<open>
  What \<open>model.calc_loss\<close> returns: one expression, or a \<open>LossBuilder\<close> with its named
  terms.
\<close>

datatype loss = Single expr | Bundle "(string \<times> expr) list"

text \<open>
  The loop of lines 275 to 277 over the terms of a bundle; \<open>loss\<close> starts as \<open>None\<close>
  and an expression object is true, so \<open>not loss\<close> holds for the first term only.
\<close>

fun sum_bundle ::
  "(string \<times> expr) list \<Rightarrow> loss_builder \<Rightarrow> expr option \<Rightarrow> loss_builder \<times> expr option" where
  "sum_bundle [] lb loss = (lb, loss)"
| "sum_bundle ((loss_name, loss_expr) # nodes) lb loss =
     sum_bundle nodes (add_loss loss_name loss_expr lb)
       (case loss of None \<Rightarrow> Some loss_expr | Some l \<Rightarrow> Some (Add l loss_expr))"

text \<open>
  \<open>training_step\<close>, given the result of \<open>model.calc_loss\<close>; the result is
  \<open>loss_value\<close> and the builder handed to \<open>logger.update_epoch_loss\<close>. Negating
  \<open>None\<close> (an empty bundle) raises \<open>TypeError\<close>.
\<close>

definition training_step ::
  "(expr \<Rightarrow> expr option) \<Rightarrow> loss \<Rightarrow> error + (expr \<times> loss_builder)" where
  "training_step calc_additional_loss standard_loss =
     (let (lb, standard_loss) =
            (case standard_loss of
               Bundle nodes \<Rightarrow> sum_bundle nodes new_loss_builder None
             | Single e \<Rightarrow> (add_loss ''loss'' e new_loss_builder, Some e))
      in case standard_loss of
           None \<Rightarrow> Inl TypeError
         | Some l \<Rightarrow>
             (let additional_loss = calc_additional_loss (NoBackprop (Neg l));
                  lb = (case additional_loss of
                          None \<Rightarrow> lb
                        | Some a \<Rightarrow> add_loss ''additional_loss'' a lb)
              in Inr (compute lb, lb)))"

subsection \<open>Runs of the task\<close>

text \<open>
  The methods a driver calls on a task, and a run as a list of such calls on the task
  and the frame of its generator. A run stops at the first raise.
\<close>

datatype action =
    DoCheckpoint bool "dev_eval list" bool
  | DoAdvanceEpoch observation
  | DoNextMinibatch "observation list"
  | DoReadTrainingCorpus
  | DoAugmentInitial observation

fun perform ::
  "('s, 'b, 'g) collab \<Rightarrow> action \<Rightarrow> frame \<times> ('s, 'b, 'g) task
   \<Rightarrow> (error + frame \<times> ('s, 'b, 'g) task) option" where
  "perform c (DoCheckpoint ctl evals improved) (fr, t) =
     (case checkpoint ctl evals improved t of
        Inl e \<Rightarrow> Some (Inl e)
      | Inr (ret, t') \<Rightarrow> Some (Inr (fr, t')))"
| "perform c (DoAdvanceEpoch ob) (fr, t) =
     (case advance_epoch c ob t of
        Inl e \<Rightarrow> Some (Inl e)
      | Inr t' \<Rightarrow> Some (Inr (fr, t')))"
| "perform c (DoNextMinibatch obs) (fr, t) =
     (case next_minibatch c obs fr t of
        None \<Rightarrow> None
      | Some (Inl e) \<Rightarrow> Some (Inl e)
      | Some (Inr (batches, fr', t')) \<Rightarrow> Some (Inr (fr', t')))"
| "perform c DoReadTrainingCorpus (fr, t) =
     (case read_training_corpus c t of
        (Some e, t') \<Rightarrow> Some (Inl e)
      | (None, t') \<Rightarrow> Some (Inr (fr, t')))"
| "perform c (DoAugmentInitial ob) (fr, t) =
     (case augment_data_initial ob t of
        Inl e \<Rightarrow> Some (Inl e)
      | Inr t' \<Rightarrow> Some (Inr (fr, t')))"

fun run ::
  "('s, 'b, 'g) collab \<Rightarrow> action list \<Rightarrow> frame \<times> ('s, 'b, 'g) task
   \<Rightarrow> (error + frame \<times> ('s, 'b, 'g) task) option" where
  "run c [] s = Some (Inr s)"
| "run c (a # as) s =
     (case perform c a s of
        None \<Rightarrow> None
      | Some (Inl e) \<Rightarrow> Some (Inl e)
      | Some (Inr s') \<Rightarrow> run c as s')"

text \<open>
  Consecutive pulls from the generator. Each pull is recorded as the consumer sees it:
  the pair it is handed, and \<open>steps_into_epoch\<close> and \<open>epoch_num\<close> at that moment.
\<close>

fun pulls ::
  "('s, 'b, 'g) collab \<Rightarrow> observation list list \<Rightarrow> frame \<Rightarrow> ('s, 'b, 'g) task
   \<Rightarrow> (error + (('b \<times> 'b) \<times> int \<times> int) list \<times> frame \<times> ('s, 'b, 'g) task) option" where
  "pulls c [] fr t = Some (Inr ([], fr, t))"
| "pulls c (obs # obss) fr t =
     (case next_minibatch c obs fr t of
        None \<Rightarrow> None
      | Some (Inl e) \<Rightarrow> Some (Inl e)
      | Some (Inr (batches, fr', t')) \<Rightarrow>
          (case pulls c obss fr' t' of
             None \<Rightarrow> None
           | Some (Inl e) \<Rightarrow> Some (Inl e)
           | Some (Inr (seen, fr'', t'')) \<Rightarrow>
               Some (Inr ((batches, steps_into_epoch (training_state t'),
                           epoch_num (training_state t')) # seen, fr'', t''))))"

text \<open>
  The state of task and generator when the consumer holds the pull number \<open>k + 1\<close> of
  the current epoch: the frame has the rest of the epoch's order to visit.
\<close>

definition at_yield :: "nat \<Rightarrow> frame \<Rightarrow> ('s, 'b, 'g) task \<Rightarrow> bool" where
  "at_yield k fr t \<longleftrightarrow>
     fr = AtYield (drop (Suc k) (minibatch_order t))
     \<and> steps_into_epoch (training_state t) = int k
     \<and> k < length (minibatch_order t)
     \<and> int (length (minibatch_order t)) = cur_num_minibatches t
     \<and> list_all (\<lambda>i. i < length (src_batches t) \<and> i < length (trg_batches t))
          (minibatch_order t)"

definition set_steps_into_epoch :: "int \<Rightarrow> ('s, 'b, 'g) task \<Rightarrow> ('s, 'b, 'g) task" where
  "set_steps_into_epoch n t =
     t\<lparr>training_state := (training_state t)\<lparr>steps_into_epoch := n\<rparr>\<rparr>"

text \<open>The pairs the \<open>for\<close> loop of \<open>next_minibatch\<close> yields over one epoch's order.\<close>

fun drain_order ::
  "nat list \<Rightarrow> ('s, 'b, 'g) task \<Rightarrow> error + ('b \<times> 'b) list" where
  "drain_order [] t = Inr []"
| "drain_order (batch_num # rest) t =
     (case yield_batch batch_num rest t of
        Inl e \<Rightarrow> Inl e
      | Inr (batches, fr, t') \<Rightarrow>
          (case drain_order rest t' of
             Inl e \<Rightarrow> Inl e
           | Inr bs \<Rightarrow> Inr (batches # bs)))"

subsection \<open>Contracts of the library and the batcher\<close>

text \<open>
  What the documentation of the library promises for the functions the task calls:
  \<open>random.randint(a, b)\<close> returns an integer between \<open>a\<close> and \<open>b\<close>, both included,
  \<open>numpy.random.shuffle\<close> permutes its argument. The batcher returns as many target
  batches as source batches.
\<close>

definition library_contract :: "('s, 'b, 'g) collab \<Rightarrow> bool" where
  "library_contract c \<longleftrightarrow>
     (\<forall>g lo hi. lo \<le> hi \<longrightarrow> lo \<le> fst (randint c g lo hi) \<and> fst (randint c g lo hi) \<le> hi)
     \<and> (\<forall>g xs. mset (fst (np_shuffle c g xs)) = mset xs)"

definition batcher_contract :: "('s, 'b, 'g) collab \<Rightarrow> bool" where
  "batcher_contract c \<longleftrightarrow>
     (\<forall>g1 g2 src trg.
        length (fst (fst (pack c g1 g2 src trg))) = length (snd (fst (pack c g1 g2 src trg))))"

subsection \<open>A small instance\<close>

text \<open>
  Sentences are strings, the batcher puts one sentence pair in each batch, a generator
  state is a number. The corpus has three sentence pairs.
\<close>

definition demo_collab :: "(string, string list, nat) collab" where
  "demo_collab =
     \<lparr>count_src = 3, count_trg = 3,
      read_src = (\<lambda>ids. [''a'', ''b'', ''c'']),
      read_trg = (\<lambda>ids. [''x'', ''y'', ''z'']),
      sent_len = length,
      np_choice = (\<lambda>g n k. if k < 0 \<or> n < k then Inl ValueError
                             else Inr (map int [0 ..< nat k], Suc g)),
      pack = (\<lambda>g1 g2 src trg.
                ((map (\<lambda>(s, r). [s]) (zip src trg), map (\<lambda>(s, r). [r]) (zip src trg)),
                 g1, Suc g2)),
      randint = (\<lambda>g lo hi. (lo + int g mod (hi - lo + 1), Suc g)),
      random_seed = nat,
      np_seed = nat,
      np_shuffle = (\<lambda>g xs. (if even g then rev xs else xs, Suc g))\<rparr>"

definition demo_task :: "(string, string list, nat) task" where
  "demo_task =
     \<lparr>model_file = Some ''model'', lr_decay = 1/2, patience = 3, initial_patience = Some 1,
      lr_decay_times = 2, restart_trainer = False, run_for_epochs = Some 2,
      early_stopping_reached = False, training_state = init_training_state 7,
      reload_command = None, augmentation_handle = None,
      sample_train_sents = None, max_num_train_sents = None,
      max_src_len = None, max_trg_len = None,
      src_data = [''a'', ''b'', ''c''], trg_data = [''x'', ''y'', ''z''],
      src_batches = [[''a''], [''b''], [''c'']], trg_batches = [[''x''], [''y''], [''z'']],
      minibatch_order = [], the_trainer = \<lparr>learning_rate = 1\<rparr>,
      py_random = 0, np_random = 0, effects = []\<rparr>"

definition demo_ob :: observation where
  "demo_ob = \<lparr>wait_code = 0, poll_code = None\<rparr>"

subsection \<open>What a call leaves alone\<close>

text \<open>
  Two tasks agree on the learning schedule: the counters of the checkpoint policy, the
  trainer, the stop flag and the configuration of the decay are the same.
\<close>

definition sched_frame :: "('s, 'b, 'g) task \<Rightarrow> ('s, 'b, 'g) task \<Rightarrow> bool" where
  "sched_frame t t' \<longleftrightarrow>
     num_times_lr_decayed (training_state t') = num_times_lr_decayed (training_state t)
     \<and> cur_attempt (training_state t') = cur_attempt (training_state t)
     \<and> the_trainer t' = the_trainer t
     \<and> early_stopping_reached t' = early_stopping_reached t
     \<and> lr_decay t' = lr_decay t
     \<and> lr_decay_times t' = lr_decay_times t
     \<and> patience t' = patience t
     \<and> initial_patience t' = initial_patience t"

definition stopped_task :: "(string, string list, nat) task" where
  "stopped_task = demo_task\<lparr>early_stopping_reached := True\<rparr>"

subsection \<open>The parts of \<open>start_epoch\<close> and of \<open>training_step\<close>\<close>

text \<open>
  The seed \<open>advance_epoch\<close> draws in a state, and what the batcher and the shuffle
  return once both generators are reseeded with a seed.
\<close>

definition drawn_seed :: "('s, 'b, 'g) collab \<Rightarrow> ('s, 'b, 'g) task \<Rightarrow> int" where
  "drawn_seed c t = fst (randint c (py_random t) 1 2147483647)"

definition packed ::
  "('s, 'b, 'g) collab \<Rightarrow> int \<Rightarrow> 's list \<Rightarrow> 's list \<Rightarrow> ('b list \<times> 'b list) \<times> 'g \<times> 'g" where
  "packed c seed src trg = pack c (random_seed c seed) (np_seed c seed) src trg"

definition shuffled :: "('s, 'b, 'g) collab \<Rightarrow> int \<Rightarrow> 's list \<Rightarrow> 's list \<Rightarrow> nat list" where
  "shuffled c seed src trg =
     fst (np_shuffle c (snd (snd (packed c seed src trg)))
            [0 ..< length (fst (fst (packed c seed src trg)))])"

text \<open>
  The value of \<open>standard_loss\<close> after line 281 (the scalar whose detached negative is
  passed on), the terms \<open>training_step\<close> records for the primary loss and for the
  additional loss, and the sum of a list of named terms.
\<close>

definition primary_loss :: "loss \<Rightarrow> expr option" where
  "primary_loss standard_loss =
     (case standard_loss of
        Bundle nodes \<Rightarrow> snd (sum_bundle nodes new_loss_builder None)
      | Single e \<Rightarrow> Some e)"

definition recorded_terms :: "loss \<Rightarrow> (string \<times> expr) list" where
  "recorded_terms standard_loss =
     (case standard_loss of Bundle nodes \<Rightarrow> nodes | Single e \<Rightarrow> [(''loss'', e)])"

definition terms_total :: "(string \<times> expr) list \<Rightarrow> real" where
  "terms_total nodes = sum_list (map (\<lambda>node. eval_expr (snd node)) nodes)"

definition additional_terms :: "expr option \<Rightarrow> (string \<times> expr) list" where
  "additional_terms additional_loss =
     (case additional_loss of None \<Rightarrow> [] | Some a \<Rightarrow> [(''additional_loss'', a)])"

subsection \<open>More instances\<close>

text \<open>
  The first two epochs of the small instance; an empty corpus; a target file one sentence
  short; a task configured with the reload command \<open>true\<close>, the same task as
  \<open>_augment_data_initial\<close> leaves it (the subprocess waited for, exit code 0), and
  one whose subprocess has not been seen to exit; a task later in training whose
  generator draws the same seed as the first.
\<close>

definition demo_epoch1 :: "(string, string list, nat) task" where
  "demo_epoch1 = start_epoch demo_collab demo_task"

definition demo_epoch2 :: "(string, string list, nat) task" where
  "demo_epoch2 = start_epoch demo_collab (set_steps_into_epoch 3 demo_epoch1)"

definition empty_collab :: "(string, string list, nat) collab" where
  "empty_collab =
     demo_collab\<lparr>count_src := 0, count_trg := 0,
                  read_src := (\<lambda>ids. []), read_trg := (\<lambda>ids. [])\<rparr>"

definition empty_task :: "(string, string list, nat) task" where
  "empty_task = snd (read_training_corpus empty_collab demo_task)"

definition short_collab :: "(string, string list, nat) collab" where
  "short_collab = demo_collab\<lparr>read_trg := (\<lambda>ids. [''x'', ''y''])\<rparr>"

definition reload_config_task :: "(string, string list, nat) task" where
  "reload_config_task = demo_task\<lparr>reload_command := Some ''true''\<rparr>"

definition reload_task :: "(string, string list, nat) task" where
  "reload_task =
     reload_config_task
       \<lparr>augmentation_handle := Some \<lparr>command = ''true --epoch 0'', returncode = Some 0\<rparr>,
        effects := [Print ''initial augmentation'', Popen ''true --epoch 0'', Wait]\<rparr>"

definition running_task :: "(string, string list, nat) task" where
  "running_task =
     reload_config_task
       \<lparr>augmentation_handle := Some \<lparr>command = ''true --epoch 0'', returncode = None\<rparr>\<rparr>"

definition exited_ob :: observation where
  "exited_ob = \<lparr>wait_code = 0, poll_code = Some 0\<rparr>"

definition late_task :: "(string, string list, nat) task" where
  "late_task =
     demo_task\<lparr>py_random := 2147483647, np_random := 5,
                training_state := (init_training_state 9)\<lparr>epoch_num := 4\<rparr>\<rparr>"

section \<open>Properties\<close>

subsection \<open>Auxiliary facts\<close>

lemma emit_simps [simp]:
  "effects (emit e t) = effects t @ [e]"
  "training_state (emit e t) = training_state t"
  "the_trainer (emit e t) = the_trainer t"
  "early_stopping_reached (emit e t) = early_stopping_reached t"
  "lr_decay (emit e t) = lr_decay t"
  "lr_decay_times (emit e t) = lr_decay_times t"
  "patience (emit e t) = patience t"
  "initial_patience (emit e t) = initial_patience t"
  "restart_trainer (emit e t) = restart_trainer t"
  "run_for_epochs (emit e t) = run_for_epochs t"
  "model_file (emit e t) = model_file t"
  "reload_command (emit e t) = reload_command t"
  "augmentation_handle (emit e t) = augmentation_handle t"
  "src_data (emit e t) = src_data t"
  "trg_data (emit e t) = trg_data t"
  "src_batches (emit e t) = src_batches t"
  "trg_batches (emit e t) = trg_batches t"
  "minibatch_order (emit e t) = minibatch_order t"
  "py_random (emit e t) = py_random t"
  "np_random (emit e t) = np_random t"
  "sample_train_sents (emit e t) = sample_train_sents t"
  "max_num_train_sents (emit e t) = max_num_train_sents t"
  "max_src_len (emit e t) = max_src_len t"
  "max_trg_len (emit e t) = max_trg_len t"
  by (simp_all add: emit_def)

lemma run_dev_tasks_frame:
  assumes "run_dev_tasks evals t = Inr t'"
  shows "training_state t' = training_state t" "the_trainer t' = the_trainer t"
    "early_stopping_reached t' = early_stopping_reached t" "lr_decay t' = lr_decay t"
    "lr_decay_times t' = lr_decay_times t" "patience t' = patience t"
    "initial_patience t' = initial_patience t" "restart_trainer t' = restart_trainer t"
    "model_file t' = model_file t"
  using assms by (auto simp: run_dev_tasks_def split: if_splits list.splits)

lemma apply_decay_simps:
  "num_times_lr_decayed (training_state (apply_decay t)) = num_times_lr_decayed (training_state t) + 1"
  "cur_attempt (training_state (apply_decay t)) = cur_attempt (training_state t)"
  "early_stopping_reached (apply_decay t) =
     (early_stopping_reached t \<or> num_times_lr_decayed (training_state t) + 1 > lr_decay_times t)"
  "learning_rate (the_trainer (apply_decay t)) =
     (if num_times_lr_decayed (training_state t) + 1 > lr_decay_times t
      then learning_rate (the_trainer t)
      else learning_rate (the_trainer t) * lr_decay t)"
  "lr_decay (apply_decay t) = lr_decay t"
  by (simp_all add: apply_decay_def set_num_times_lr_decayed_def Let_def)

lemma should_decay_iff:
  "should_decay t \<longleftrightarrow>
     (cur_attempt (training_state t) \<ge> patience t
        \<and> (initial_patience t = None \<or> num_times_lr_decayed (training_state t) > 0))
     \<or> (\<exists>ip. initial_patience t = Some ip \<and> num_times_lr_decayed (training_state t) = 0
              \<and> cur_attempt (training_state t) \<ge> ip)"
  by (auto simp: should_decay_def Let_def split: option.splits)

lemmas eval_defs =
  checkpoint_def run_dev_tasks_def emit_def set_cur_attempt_def should_decay_def
  apply_decay_def set_num_times_lr_decayed_def demo_task_def init_training_state_def Let_def

lemma sched_frame_refl [simp]: "sched_frame t t"
  by (simp add: sched_frame_def)

lemma sched_frame_trans: "sched_frame t u \<Longrightarrow> sched_frame u v \<Longrightarrow> sched_frame t v"
  by (simp add: sched_frame_def)

lemma sched_frame_emit [simp]: "sched_frame t (emit e u) = sched_frame t u"
  by (simp add: sched_frame_def)

lemma start_epoch_sched: "sched_frame t (start_epoch c t)"
  by (simp add: start_epoch_def sched_frame_def Let_def split: prod.splits)

lemma launch_first_sched:
  "launch_first ob t = Inr (h, t') \<Longrightarrow> sched_frame t t'"
  by (auto simp: launch_first_def sched_frame_def Let_def split: option.splits)

lemma augment_next_sched:
  "augment_data_next_epoch ob t = Inr t' \<Longrightarrow> sched_frame t t'"
  by (auto simp: augment_data_next_epoch_def Let_def sched_frame_def
           split: sum.splits option.splits prod.splits if_splits
           dest!: launch_first_sched)

lemma augment_initial_sched:
  "augment_data_initial ob t = Inr t' \<Longrightarrow> sched_frame t t'"
  by (auto simp: augment_data_initial_def Let_def sched_frame_def split: option.splits)

lemma advance_epoch_sched:
  "advance_epoch c ob t = Inr t' \<Longrightarrow> sched_frame t t'"
  by (auto simp: advance_epoch_def split: if_splits sum.splits
           intro: sched_frame_trans [OF augment_next_sched start_epoch_sched] start_epoch_sched)

lemma yield_batch_state: "yield_batch b rest t = Inr (p, fr, t') \<Longrightarrow> t' = t \<and> fr = AtYield rest"
  by (auto simp: yield_batch_def split: if_splits)

lemma epoch_loop_sched:
  "epoch_loop c obs t = Some (Inr (p, fr, t')) \<Longrightarrow> sched_frame t t'"
proof (induction obs arbitrary: t)
  case Nil
  then show ?case by simp
next
  case (Cons ob obs)
  from Cons.prems obtain u where u: "advance_epoch c ob t = Inr u"
    by (auto split: sum.splits)
  then have tu: "sched_frame t u" by (rule advance_epoch_sched)
  show ?case
  proof (cases "minibatch_order u")
    case Nil
    with Cons.prems u have "epoch_loop c obs u = Some (Inr (p, fr, t'))" by simp
    then have "sched_frame u t'" by (rule Cons.IH)
    with tu show ?thesis by (rule sched_frame_trans)
  next
    case (Cons b rest)
    with Cons.prems u have "yield_batch b rest u = Inr (p, fr, t')" by simp
    then have "t' = u" by (simp add: yield_batch_state)
    with tu show ?thesis by simp
  qed
qed

lemma next_minibatch_sched:
  assumes "next_minibatch c obs fr t = Some (Inr (p, fr', t'))"
  shows "sched_frame t t'"
proof (cases fr)
  case NotStarted
  with assms show ?thesis by (auto simp: next_minibatch_def dest: epoch_loop_sched)
next
  case (AtYield rest)
  let ?u = "t\<lparr>training_state := (training_state t)\<lparr>steps_into_epoch :=
                 steps_into_epoch (training_state t) + 1\<rparr>\<rparr>"
  have tu: "sched_frame t ?u" by (simp add: sched_frame_def)
  show ?thesis
  proof (cases rest)
    case Nil
    with assms AtYield have "epoch_loop c obs ?u = Some (Inr (p, fr', t'))"
      by (simp add: next_minibatch_def Let_def)
    then have "sched_frame ?u t'" by (rule epoch_loop_sched)
    with tu show ?thesis by (rule sched_frame_trans)
  next
    case (Cons b rest')
    with assms AtYield have "yield_batch b rest' ?u = Inr (p, fr', t')"
      by (simp add: next_minibatch_def Let_def)
    then have "t' = ?u" by (simp add: yield_batch_state)
    with tu show ?thesis by simp
  qed
qed

lemma read_pairs_sched: "read_pairs c err ss ts t = (r, t') \<Longrightarrow> sched_frame t t'"
proof (induction c err ss ts t rule: read_pairs.induct)
  case (2 c err src_sent ss trg_sent ts t)
  let ?u = "t\<lparr>src_data := src_data t @ [src_sent], trg_data := trg_data t @ [trg_sent]\<rparr>"
  have "sched_frame t ?u" by (simp add: sched_frame_def)
  with 2 show ?case
    by (auto simp: Let_def split: if_splits intro: sched_frame_trans)
qed simp_all

lemma read_and_pack_sched: "read_and_pack c ids t = (r, t') \<Longrightarrow> sched_frame t t'"
  by (auto simp: read_and_pack_def Let_def split: prod.splits option.splits
           dest!: read_pairs_sched) (simp add: sched_frame_def)

lemma read_training_corpus_sched:
  assumes "read_training_corpus c t = (r, t')"
  shows "sched_frame t t'"
proof -
  let ?u = "t\<lparr>src_data := [], trg_data := []\<rparr>"
  have tu: "sched_frame t ?u" by (simp add: sched_frame_def)
  have "sched_frame ?u t'"
    using assms
    by (auto simp: read_training_corpus_def Let_def sched_frame_def
             split: if_splits sum.splits prod.splits
             dest!: read_and_pack_sched)
  with tu show ?thesis by (rule sched_frame_trans)
qed

lemma checkpoint_cases:
  assumes "checkpoint ctl evals improved t = Inr (ret, t')"
  obtains
    (eval_only) "\<not> ctl" "sched_frame t t'" "ret = False"
  | (improved) "ctl" "improved" "sched_frame t (set_cur_attempt (cur_attempt (training_state t)) t')"
      "cur_attempt (training_state t') = 0" "ret = (model_file t \<noteq> None)"
  | (waiting) u where "ctl" "\<not> improved"
      "sched_frame (set_cur_attempt (cur_attempt (training_state t) + 1) t) u"
      "\<not> (lr_decay t < 1 \<and> should_decay u)" "t' = u" "ret = False"
  | (decay) u where "ctl" "\<not> improved"
      "sched_frame (set_cur_attempt (cur_attempt (training_state t) + 1) t) u"
      "lr_decay t < 1" "should_decay u" "t' = apply_decay u" "ret = False"
proof -
  from assms obtain t1 where t1: "run_dev_tasks evals (emit NewDev t) = Inr t1"
    by (auto simp: checkpoint_def split: sum.splits)
  have f1: "training_state t1 = training_state t" "the_trainer t1 = the_trainer t"
    "early_stopping_reached t1 = early_stopping_reached t" "lr_decay t1 = lr_decay t"
    "lr_decay_times t1 = lr_decay_times t" "patience t1 = patience t"
    "initial_patience t1 = initial_patience t" "model_file t1 = model_file t"
    using run_dev_tasks_frame [OF t1] by simp_all
  show thesis
  proof (cases ctl)
    case False
    with assms t1 have "t' = t1" "ret = False" by (auto simp: checkpoint_def)
    with f1 False show thesis by (intro eval_only) (simp_all add: sched_frame_def)
  next
    case True
    let ?t2 = "emit ReportDev (emit (Print ''> Checkpoint'') t1)"
    show thesis
    proof (cases improved)
      case True
      with assms t1 \<open>ctl\<close> have "t' = set_cur_attempt 0 ?t2" "ret = (model_file t \<noteq> None)"
        using f1 by (auto simp: checkpoint_def Let_def)
      with f1 \<open>ctl\<close> True show thesis
        by (intro improved) (simp_all add: sched_frame_def set_cur_attempt_def)
    next
      case False
      let ?u = "set_cur_attempt (cur_attempt (training_state ?t2) + 1) ?t2"
      have fu: "sched_frame (set_cur_attempt (cur_attempt (training_state t) + 1) t) ?u"
        using f1 by (simp add: sched_frame_def set_cur_attempt_def)
      have lu: "lr_decay ?u = lr_decay t" using f1 by (simp add: set_cur_attempt_def)
      show thesis
      proof (cases "lr_decay t < 1 \<and> should_decay ?u")
        case True
        with assms t1 \<open>ctl\<close> \<open>\<not> improved\<close> lu have "t' = apply_decay ?u" "ret = False"
          by (auto simp: checkpoint_def Let_def)
        with True fu \<open>ctl\<close> \<open>\<not> improved\<close> show thesis by (intro decay) simp_all
      next
        case False
        with assms t1 \<open>ctl\<close> \<open>\<not> improved\<close> lu have "t' = ?u" "ret = False"
          by (auto simp: checkpoint_def Let_def split: if_splits)
        with False fu \<open>ctl\<close> \<open>\<not> improved\<close> show thesis by (intro waiting) simp_all
      qed
    qed
  qed
qed

lemma should_decay_cong:
  "sched_frame t u \<Longrightarrow> should_decay u = should_decay t"
  by (simp add: should_decay_iff sched_frame_def)

lemma set_cur_attempt_simps [simp]:
  "cur_attempt (training_state (set_cur_attempt n t)) = n"
  "num_times_lr_decayed (training_state (set_cur_attempt n t)) = num_times_lr_decayed (training_state t)"
  "the_trainer (set_cur_attempt n t) = the_trainer t"
  "early_stopping_reached (set_cur_attempt n t) = early_stopping_reached t"
  "lr_decay (set_cur_attempt n t) = lr_decay t"
  "lr_decay_times (set_cur_attempt n t) = lr_decay_times t"
  "patience (set_cur_attempt n t) = patience t"
  "initial_patience (set_cur_attempt n t) = initial_patience t"
  by (simp_all add: set_cur_attempt_def)

lemma checkpoint_decayed_mono:
  assumes "checkpoint ctl evals improved t = Inr (ret, t')"
  shows "num_times_lr_decayed (training_state t) \<le> num_times_lr_decayed (training_state t')"
  using assms
  by (cases rule: checkpoint_cases) (auto simp: sched_frame_def apply_decay_simps)

lemma perform_decayed_mono:
  assumes "perform c a (fr, t) = Some (Inr (fr', t'))"
  shows "num_times_lr_decayed (training_state t) \<le> num_times_lr_decayed (training_state t')"
proof (cases a)
  case (DoCheckpoint ctl evals improved)
  with assms show ?thesis
    by (auto split: sum.splits dest: checkpoint_decayed_mono)
next
  case (DoAdvanceEpoch ob)
  with assms show ?thesis
    by (auto split: sum.splits dest!: advance_epoch_sched simp: sched_frame_def)
next
  case (DoNextMinibatch obs)
  with assms show ?thesis
    by (auto split: sum.splits option.splits dest!: next_minibatch_sched simp: sched_frame_def)
next
  case DoReadTrainingCorpus
  with assms show ?thesis
    by (auto split: prod.splits option.splits dest!: read_training_corpus_sched
             simp: sched_frame_def)
next
  case (DoAugmentInitial ob)
  with assms show ?thesis
    by (auto split: sum.splits dest!: augment_initial_sched simp: sched_frame_def)
qed

lemma run_decayed_mono:
  "run c acts (fr, t) = Some (Inr (fr', t')) \<Longrightarrow>
   num_times_lr_decayed (training_state t) \<le> num_times_lr_decayed (training_state t')"
proof (induction acts arbitrary: fr t)
  case Nil
  then show ?case by simp
next
  case (Cons a acts)
  from Cons.prems obtain fr1 t1 where
    p: "perform c a (fr, t) = Some (Inr (fr1, t1))" and r: "run c acts (fr1, t1) = Some (Inr (fr', t'))"
    by (auto split: option.splits sum.splits)
  from p have "num_times_lr_decayed (training_state t) \<le> num_times_lr_decayed (training_state t1)"
    by (rule perform_decayed_mono)
  also from r have "\<dots> \<le> num_times_lr_decayed (training_state t')" by (rule Cons.IH)
  finally show ?case .
qed

lemma checkpoint_lr_decay_one:
  assumes "checkpoint ctl evals improved t = Inr (ret, t')" and "lr_decay t = 1"
  shows "lr_decay t' = 1
    \<and> num_times_lr_decayed (training_state t') = num_times_lr_decayed (training_state t)
    \<and> the_trainer t' = the_trainer t
    \<and> early_stopping_reached t' = early_stopping_reached t
    \<and> (ctl \<and> \<not> improved \<longrightarrow>
          cur_attempt (training_state t') = cur_attempt (training_state t) + 1)"
  using assms
  by (cases rule: checkpoint_cases) (auto simp: sched_frame_def)

lemma perform_lr_decay_one:
  assumes "perform c a (fr, t) = Some (Inr (fr', t'))" and "lr_decay t = 1"
  shows "lr_decay t' = 1
    \<and> num_times_lr_decayed (training_state t') = num_times_lr_decayed (training_state t)
    \<and> the_trainer t' = the_trainer t
    \<and> early_stopping_reached t' = early_stopping_reached t"
proof (cases a)
  case (DoCheckpoint ctl evals improved)
  with assms show ?thesis
    by (auto split: sum.splits dest: checkpoint_lr_decay_one)
next
  case (DoAdvanceEpoch ob)
  with assms show ?thesis
    by (auto split: sum.splits dest!: advance_epoch_sched simp: sched_frame_def)
next
  case (DoNextMinibatch obs)
  with assms show ?thesis
    by (auto split: sum.splits option.splits dest!: next_minibatch_sched simp: sched_frame_def)
next
  case DoReadTrainingCorpus
  with assms show ?thesis
    by (auto split: prod.splits option.splits dest!: read_training_corpus_sched
             simp: sched_frame_def)
next
  case (DoAugmentInitial ob)
  with assms show ?thesis
    by (auto split: sum.splits dest!: augment_initial_sched simp: sched_frame_def)
qed

lemma run_lr_decay_one:
  "run c acts (fr, t) = Some (Inr (fr', t')) \<Longrightarrow> lr_decay t = 1 \<Longrightarrow>
   lr_decay t' = 1
   \<and> num_times_lr_decayed (training_state t') = num_times_lr_decayed (training_state t)
   \<and> the_trainer t' = the_trainer t
   \<and> early_stopping_reached t' = early_stopping_reached t"
proof (induction acts arbitrary: fr t)
  case Nil
  then show ?case by simp
next
  case (Cons a acts)
  from Cons.prems(1) obtain fr1 t1 where
    p: "perform c a (fr, t) = Some (Inr (fr1, t1))" and r: "run c acts (fr1, t1) = Some (Inr (fr', t'))"
    by (auto split: option.splits sum.splits)
  from perform_lr_decay_one [OF p Cons.prems(2)] Cons.IH [OF r]
  show ?case by simp
qed

lemma run_failed_checkpoints_lr_decay_one:
  "run c (map (\<lambda>evals. DoCheckpoint True evals False) evs) (fr, t) = Some (Inr (fr', t')) \<Longrightarrow>
   lr_decay t = 1 \<Longrightarrow>
   cur_attempt (training_state t') = cur_attempt (training_state t) + int (length evs)"
proof (induction evs arbitrary: fr t)
  case Nil
  then show ?case by simp
next
  case (Cons ev evs)
  from Cons.prems(1) obtain ret t1 where
    p: "checkpoint True ev False t = Inr (ret, t1)"
    and r: "run c (map (\<lambda>evals. DoCheckpoint True evals False) evs) (fr, t1) = Some (Inr (fr', t'))"
    by (auto split: option.splits sum.splits)
  from checkpoint_lr_decay_one [OF p Cons.prems(2)]
  have "lr_decay t1 = 1" "cur_attempt (training_state t1) = cur_attempt (training_state t) + 1"
    by simp_all
  with Cons.IH [OF r] show ?case by simp
qed

lemma read_pairs_error:
  "fst (read_pairs c err ss ts t) = (if length ss = length ts then None else Some err)"
  by (induction c err ss ts t rule: read_pairs.induct) (simp_all add: Let_def)

lemma read_pairs_frame:
  "src_batches (snd (read_pairs c err ss ts t)) = src_batches t
   \<and> trg_batches (snd (read_pairs c err ss ts t)) = trg_batches t
   \<and> effects (snd (read_pairs c err ss ts t)) = effects t
   \<and> py_random (snd (read_pairs c err ss ts t)) = py_random t
   \<and> np_random (snd (read_pairs c err ss ts t)) = np_random t"
  by (induction c err ss ts t rule: read_pairs.induct) (simp_all add: Let_def)

lemma read_pairs_lengths:
  "length (src_data t) = length (trg_data t) \<Longrightarrow>
   length (src_data (snd (read_pairs c err ss ts t)))
     = length (trg_data (snd (read_pairs c err ss ts t)))"
  by (induction c err ss ts t rule: read_pairs.induct) (simp_all add: Let_def)

lemma read_and_pack_error:
  "fst (read_and_pack c ids t)
     = (if length (read_src c ids) = length (read_trg c ids) then None
        else Some (mismatch_error (count_src c) (count_trg c)))"
proof -
  obtain r u where ru: "read_pairs c (mismatch_error (count_src c) (count_trg c))
             (read_src c ids) (read_trg c ids) t = (r, u)"
    by (cases "read_pairs c (mismatch_error (count_src c) (count_trg c))
             (read_src c ids) (read_trg c ids) t")
  with read_pairs_error [of c "mismatch_error (count_src c) (count_trg c)"
      "read_src c ids" "read_trg c ids" t]
  show ?thesis
    by (auto simp: read_and_pack_def Let_def split: option.splits prod.splits)
qed

lemma read_and_pack_lengths:
  assumes "length (src_data t) = length (trg_data t)"
  shows "length (src_data (snd (read_and_pack c ids t)))
           = length (trg_data (snd (read_and_pack c ids t)))"
proof -
  obtain r u where ru: "read_pairs c (mismatch_error (count_src c) (count_trg c))
             (read_src c ids) (read_trg c ids) t = (r, u)"
    by (cases "read_pairs c (mismatch_error (count_src c) (count_trg c))
             (read_src c ids) (read_trg c ids) t")
  with read_pairs_lengths [OF assms, of c "mismatch_error (count_src c) (count_trg c)"
      "read_src c ids" "read_trg c ids"]
  have "length (src_data u) = length (trg_data u)" by simp
  with ru show ?thesis
    by (auto simp: read_and_pack_def Let_def emit_def split: option.splits prod.splits)
qed

lemma read_and_pack_raise_frame:
  assumes "fst (read_and_pack c ids t) \<noteq> None"
  shows "src_batches (snd (read_and_pack c ids t)) = src_batches t
         \<and> trg_batches (snd (read_and_pack c ids t)) = trg_batches t
         \<and> effects (snd (read_and_pack c ids t)) = effects t"
proof -
  obtain r u where ru: "read_pairs c (mismatch_error (count_src c) (count_trg c))
             (read_src c ids) (read_trg c ids) t = (r, u)"
    by (cases "read_pairs c (mismatch_error (count_src c) (count_trg c))
             (read_src c ids) (read_trg c ids) t")
  with read_pairs_frame [of c "mismatch_error (count_src c) (count_trg c)"
      "read_src c ids" "read_trg c ids" t]
  have "src_batches u = src_batches t" "trg_batches u = trg_batches t" "effects u = effects t"
    by simp_all
  with ru assms show ?thesis
    by (auto simp: read_and_pack_def Let_def split: option.splits prod.splits)
qed

lemma start_epoch_state:
  "epoch_seed (training_state (start_epoch c t)) = drawn_seed c t"
  "epoch_num (training_state (start_epoch c t)) = epoch_num (training_state t) + 1"
  "steps_into_epoch (training_state (start_epoch c t)) = 0"
  "src_data (start_epoch c t) = src_data t"
  "trg_data (start_epoch c t) = trg_data t"
  "reload_command (start_epoch c t) = reload_command t"
  "augmentation_handle (start_epoch c t) = augmentation_handle t"
  by (simp_all add: start_epoch_def drawn_seed_def Let_def case_prod_beta)

lemma start_epoch_batches:
  "src_batches (start_epoch c t)
     = fst (fst (packed c (drawn_seed c t) (src_data t) (trg_data t)))"
  "trg_batches (start_epoch c t)
     = snd (fst (packed c (drawn_seed c t) (src_data t) (trg_data t)))"
  "minibatch_order (start_epoch c t) = shuffled c (drawn_seed c t) (src_data t) (trg_data t)"
  by (simp_all add: start_epoch_def drawn_seed_def packed_def shuffled_def Let_def
        case_prod_beta cur_num_minibatches_def)

lemma start_epoch_effects:
  "effects (start_epoch c t)
     = effects t @ [RandInt 1 2147483647, RandomSeed (drawn_seed c t),
                    NpRandomSeed (drawn_seed c t), Pack, Shuffle,
                    NewEpoch (epoch_num (training_state t) + 1) (length (src_data t))]"
  by (simp add: start_epoch_def drawn_seed_def Let_def case_prod_beta cur_num_sentences_def)

lemma augment_running:
  assumes "reload_command t = Some cmd" and "augmentation_handle t = Some h"
    and "returncode (poll ob h) = None"
  shows "augment_data_next_epoch ob t
           = Inr (emit (Print ''new data set is not ready yet, using data from last epoch.'')
                    (emit Poll t))"
proof -
  from assms(3) have "poll ob h = h"
    by (cases "returncode h") (simp_all add: poll_def)
  with assms show ?thesis
    by (simp add: augment_data_next_epoch_def launch_first_def Let_def)
qed

lemma augment_exited_raises:
  assumes "augmentation_handle t = Some h" and "returncode (poll ob h) = Some rc"
  shows "augment_data_next_epoch ob t = Inl AttributeError"
  using assms
  by (simp add: augment_data_next_epoch_def launch_first_def Let_def)

lemma augment_first_run_raises:
  assumes "augmentation_handle t = None"
  shows "\<exists>e. augment_data_next_epoch ob t = Inl e"
  using assms
  by (simp add: augment_data_next_epoch_def launch_first_def Let_def poll_def
           split: option.splits)

lemma augment_next_frame:
  assumes "augment_data_next_epoch ob t = Inr u"
  shows "py_random u = py_random t \<and> np_random u = np_random t
    \<and> training_state u = training_state t
    \<and> src_data u = src_data t \<and> trg_data u = trg_data t
    \<and> (\<exists>pre. effects u = effects t @ pre)"
  using assms
  by (auto simp: augment_data_next_epoch_def launch_first_def Let_def
           split: sum.splits option.splits prod.splits if_splits)

lemma advance_epoch_start:
  assumes "advance_epoch c ob t = Inr t'"
  obtains u pre where "t' = start_epoch c u" "py_random u = py_random t"
    "training_state u = training_state t" "src_data u = src_data t" "trg_data u = trg_data t"
    "effects u = effects t @ pre" "reload_command t = None \<longrightarrow> pre = []"
proof (cases "reload_command t")
  case None
  with assms have "t' = start_epoch c t" by (simp add: advance_epoch_def)
  with None show thesis by (intro that [of t "[]"]) simp_all
next
  case (Some cmd)
  with assms obtain u where u: "augment_data_next_epoch ob t = Inr u" "t' = start_epoch c u"
    by (auto simp: advance_epoch_def split: sum.splits)
  from augment_next_frame [OF u(1)] obtain pre where "effects u = effects t @ pre"
    "py_random u = py_random t" "training_state u = training_state t"
    "src_data u = src_data t" "trg_data u = trg_data t"
    by auto
  with u(2) Some show thesis by (intro that [of u pre]) simp_all
qed

lemma shuffled_perm:
  "library_contract c \<Longrightarrow>
   mset (shuffled c seed src trg) = mset [0 ..< length (fst (fst (packed c seed src trg)))]"
  by (simp add: library_contract_def shuffled_def)

lemma drain_order_cong:
  "src_batches t = src_batches u \<Longrightarrow> trg_batches t = trg_batches u \<Longrightarrow>
   drain_order order t = drain_order order u"
proof (induction order arbitrary: t u)
  case Nil
  then show ?case by simp
next
  case (Cons b rest)
  from Cons.prems have "drain_order rest t = drain_order rest u" by (rule Cons.IH)
  with Cons.prems show ?case
    by (simp add: yield_batch_def split: sum.splits)
qed

lemma set_steps_simps [simp]:
  "steps_into_epoch (training_state (set_steps_into_epoch n t)) = n"
  "epoch_num (training_state (set_steps_into_epoch n t)) = epoch_num (training_state t)"
  "minibatch_order (set_steps_into_epoch n t) = minibatch_order t"
  "src_batches (set_steps_into_epoch n t) = src_batches t"
  "trg_batches (set_steps_into_epoch n t) = trg_batches t"
  "set_steps_into_epoch n (set_steps_into_epoch m t) = set_steps_into_epoch n t"
  "cur_num_minibatches (set_steps_into_epoch n t) = cur_num_minibatches t"
  by (simp_all add: set_steps_into_epoch_def cur_num_minibatches_def)

lemma set_steps_same: "steps_into_epoch (training_state t) = n \<Longrightarrow> set_steps_into_epoch n t = t"
  by (simp add: set_steps_into_epoch_def)

lemma resume_eq:
  "steps_into_epoch (training_state t) = int k \<Longrightarrow>
   t\<lparr>training_state := (training_state t)\<lparr>steps_into_epoch :=
        steps_into_epoch (training_state t) + 1\<rparr>\<rparr> = set_steps_into_epoch (int (Suc k)) t"
  by (simp add: set_steps_into_epoch_def)

lemma pull_within_epoch:
  assumes "at_yield k fr t" and "Suc k < length (minibatch_order t)"
  shows "next_minibatch c obs fr t
           = Some (Inr ((src_batches t ! (minibatch_order t ! Suc k),
                         trg_batches t ! (minibatch_order t ! Suc k)),
                        AtYield (drop (Suc (Suc k)) (minibatch_order t)),
                        set_steps_into_epoch (int (Suc k)) t))"
    and "at_yield (Suc k) (AtYield (drop (Suc (Suc k)) (minibatch_order t)))
           (set_steps_into_epoch (int (Suc k)) t)"
proof -
  from assms(1) have fr: "fr = AtYield (drop (Suc k) (minibatch_order t))"
    and st: "steps_into_epoch (training_state t) = int k"
    and ix: "list_all (\<lambda>i. i < length (src_batches t) \<and> i < length (trg_batches t))
               (minibatch_order t)"
    and ln: "int (length (minibatch_order t)) = cur_num_minibatches t"
    by (simp_all add: at_yield_def)
  from assms(2) have d: "drop (Suc k) (minibatch_order t)
      = minibatch_order t ! Suc k # drop (Suc (Suc k)) (minibatch_order t)"
    by (simp add: Cons_nth_drop_Suc)
  from ix assms(2) have b: "minibatch_order t ! Suc k < length (src_batches t)"
    "minibatch_order t ! Suc k < length (trg_batches t)"
    by (simp_all add: list_all_length)
  show "next_minibatch c obs fr t
           = Some (Inr ((src_batches t ! (minibatch_order t ! Suc k),
                         trg_batches t ! (minibatch_order t ! Suc k)),
                        AtYield (drop (Suc (Suc k)) (minibatch_order t)),
                        set_steps_into_epoch (int (Suc k)) t))"
    unfolding next_minibatch_def fr
    by (simp add: Let_def resume_eq [OF st] d [symmetric])
       (simp add: d yield_batch_def b)
  show "at_yield (Suc k) (AtYield (drop (Suc (Suc k)) (minibatch_order t)))
           (set_steps_into_epoch (int (Suc k)) t)"
    using assms(2) ix ln by (simp add: at_yield_def)
qed

lemma advance_epoch_at_yield:
  assumes "library_contract c" and "batcher_contract c"
    and "advance_epoch c ob t = Inr t2" and "minibatch_order t2 \<noteq> []"
  shows "yield_batch (hd (minibatch_order t2)) (tl (minibatch_order t2)) t2
           = Inr ((src_batches t2 ! hd (minibatch_order t2),
                   trg_batches t2 ! hd (minibatch_order t2)),
                  AtYield (tl (minibatch_order t2)), t2)"
    and "at_yield 0 (AtYield (tl (minibatch_order t2))) t2"
    and "epoch_num (training_state t2) = epoch_num (training_state t) + 1"
proof -
  from assms(3) obtain u where u: "t2 = start_epoch c u"
    "training_state u = training_state t"
    by (cases rule: advance_epoch_start) simp
  let ?p = "packed c (drawn_seed c u) (src_data u) (trg_data u)"
  have m: "mset (minibatch_order t2) = mset [0 ..< length (src_batches t2)]"
    using u(1) shuffled_perm [OF assms(1)] by (simp add: start_epoch_batches)
  then have s: "set (minibatch_order t2) = {0 ..< length (src_batches t2)}"
    by (metis mset_eq_setD set_upt)
  from m have l: "length (minibatch_order t2) = length (src_batches t2)"
    by (metis mset_eq_length length_upt diff_zero)
  from assms(2) have e: "length (trg_batches t2) = length (src_batches t2)"
    using u(1) by (simp add: start_epoch_batches packed_def batcher_contract_def)
  from s e have ix: "list_all (\<lambda>i. i < length (src_batches t2) \<and> i < length (trg_batches t2))
               (minibatch_order t2)"
    by (auto simp: list_all_iff)
  from assms(4) have h: "hd (minibatch_order t2) \<in> set (minibatch_order t2)" by simp
  with ix have hb: "hd (minibatch_order t2) < length (src_batches t2)"
    "hd (minibatch_order t2) < length (trg_batches t2)"
    by (auto simp: list_all_iff)
  then show "yield_batch (hd (minibatch_order t2)) (tl (minibatch_order t2)) t2
           = Inr ((src_batches t2 ! hd (minibatch_order t2),
                   trg_batches t2 ! hd (minibatch_order t2)),
                  AtYield (tl (minibatch_order t2)), t2)"
    by (simp add: yield_batch_def)
  from l assms(4) have "src_batches t2 \<noteq> []" by auto
  then show "at_yield 0 (AtYield (tl (minibatch_order t2))) t2"
    using assms(4) ix l u(1)
    by (simp add: at_yield_def drop_Suc start_epoch_state cur_num_minibatches_def)
  show "epoch_num (training_state t2) = epoch_num (training_state t) + 1"
    using u by (simp add: start_epoch_state)
qed

lemma epoch_loop_first:
  assumes "library_contract c" and "batcher_contract c"
    and "advance_epoch c ob t = Inr t2" and "minibatch_order t2 \<noteq> []"
  shows "epoch_loop c (ob # obs) t
           = Some (Inr ((src_batches t2 ! hd (minibatch_order t2),
                         trg_batches t2 ! hd (minibatch_order t2)),
                        AtYield (tl (minibatch_order t2)), t2))"
proof -
  from assms(4) obtain b rest where br: "minibatch_order t2 = b # rest"
    by (cases "minibatch_order t2") auto
  with advance_epoch_at_yield(1) [OF assms] assms(3) show ?thesis by simp
qed

lemma pull_at_boundary:
  assumes "library_contract c" and "batcher_contract c"
    and "at_yield k fr t" and "Suc k = length (minibatch_order t)"
    and "advance_epoch c ob (set_steps_into_epoch (int (Suc k)) t) = Inr t2"
    and "minibatch_order t2 \<noteq> []"
  shows "next_minibatch c (ob # obs) fr t
           = Some (Inr ((src_batches t2 ! hd (minibatch_order t2),
                         trg_batches t2 ! hd (minibatch_order t2)),
                        AtYield (tl (minibatch_order t2)), t2))"
proof -
  from assms(3) have fr: "fr = AtYield (drop (Suc k) (minibatch_order t))"
    and st: "steps_into_epoch (training_state t) = int k"
    by (simp_all add: at_yield_def)
  from assms(4) have d: "drop (Suc k) (minibatch_order t) = []" by simp
  show ?thesis
    unfolding next_minibatch_def fr d
    using epoch_loop_first [OF assms(1,2,5,6), of obs]
    by (simp add: Let_def resume_eq [OF st] del: epoch_loop.simps)
qed

lemma pulls_within_epoch:
  assumes "at_yield k fr t" and "k + length obss < length (minibatch_order t)"
  shows "pulls c obss fr t
           = Some (Inr (map (\<lambda>j. ((src_batches t ! (minibatch_order t ! j),
                                    trg_batches t ! (minibatch_order t ! j)),
                                   int j, epoch_num (training_state t)))
                          [Suc k ..< Suc (k + length obss)],
                        AtYield (drop (Suc (k + length obss)) (minibatch_order t)),
                        set_steps_into_epoch (int (k + length obss)) t))
         \<and> at_yield (k + length obss)
             (AtYield (drop (Suc (k + length obss)) (minibatch_order t)))
             (set_steps_into_epoch (int (k + length obss)) t)"
  using assms
proof (induction obss arbitrary: k fr t)
  case Nil
  then have "set_steps_into_epoch (int k) t = t"
    by (simp add: at_yield_def set_steps_same)
  with Nil show ?case by (simp add: at_yield_def)
next
  case (Cons obs obss)
  let ?t1 = "set_steps_into_epoch (int (Suc k)) t"
  let ?fr1 = "AtYield (drop (Suc (Suc k)) (minibatch_order t))"
  from Cons.prems(2) have sk: "Suc k < length (minibatch_order t)" by simp
  note p = pull_within_epoch(1) [OF Cons.prems(1) sk, of c obs]
    pull_within_epoch(2) [OF Cons.prems(1) sk]
  from Cons.prems(2) have "Suc k + length obss < length (minibatch_order ?t1)" by simp
  from Cons.IH [OF p(2) this]
  have ih: "pulls c obss ?fr1 ?t1
      = Some (Inr (map (\<lambda>j. ((src_batches t ! (minibatch_order t ! j),
                               trg_batches t ! (minibatch_order t ! j)),
                              int j, epoch_num (training_state t)))
                     [Suc (Suc k) ..< Suc (Suc k + length obss)],
                   AtYield (drop (Suc (Suc k + length obss)) (minibatch_order t)),
                   set_steps_into_epoch (int (Suc k + length obss)) t))"
    and ay: "at_yield (Suc k + length obss)
             (AtYield (drop (Suc (Suc k + length obss)) (minibatch_order t)))
             (set_steps_into_epoch (int (Suc k + length obss)) t)"
    by simp_all
  have u: "[Suc k ..< Suc (Suc (k + length obss))]
             = Suc k # [Suc (Suc k) ..< Suc (Suc (k + length obss))]"
    by (rule upt_conv_Cons) simp
  show ?case
    using p(1) ih ay by (simp add: u del: upt_Suc)
qed

lemma pulls_snoc:
  "pulls c obss fr t = Some (Inr (seen, fr1, t1)) \<Longrightarrow>
   next_minibatch c obs fr1 t1 = Some (Inr (p, fr2, t2)) \<Longrightarrow>
   pulls c (obss @ [obs]) fr t
     = Some (Inr (seen @ [(p, steps_into_epoch (training_state t2),
                           epoch_num (training_state t2))], fr2, t2))"
proof (induction obss arbitrary: fr t seen)
  case Nil
  then show ?case by simp
next
  case (Cons o1 obss)
  from Cons.prems(1) obtain q fr' t' seen' where
    n: "next_minibatch c o1 fr t = Some (Inr (q, fr', t'))"
    and r: "pulls c obss fr' t' = Some (Inr (seen', fr1, t1))"
    and s: "seen = (q, steps_into_epoch (training_state t'), epoch_num (training_state t')) # seen'"
    by (auto split: option.splits sum.splits)
  from Cons.IH [OF r Cons.prems(2)] n s show ?case by simp
qed

lemma demo_library_contract: "library_contract demo_collab"
proof -
  have "lo + int g mod (hi - lo + 1) \<le> hi" if "lo \<le> hi" for lo hi :: int and g :: nat
  proof -
    from that have "int g mod (hi - lo + 1) < hi - lo + 1" by (intro pos_mod_bound) simp
    then show ?thesis by simp
  qed
  then show ?thesis by (simp add: library_contract_def demo_collab_def)
qed

lemma demo_batcher_contract: "batcher_contract demo_collab"
  by (simp add: batcher_contract_def demo_collab_def)

lemma demo_epoch1_fields:
  "minibatch_order demo_epoch1 = [2, 1, 0]"
  "src_batches demo_epoch1 = [[''a''], [''b''], [''c'']]"
  "trg_batches demo_epoch1 = [[''x''], [''y''], [''z'']]"
  "training_state demo_epoch1 = (init_training_state 7)\<lparr>epoch_num := 1, epoch_seed := 1\<rparr>"
  "reload_command demo_epoch1 = None"
  "src_data demo_epoch1 = [''a'', ''b'', ''c'']"
  "trg_data demo_epoch1 = [''x'', ''y'', ''z'']"
  "py_random demo_epoch1 = 1"
  by (simp_all add: demo_epoch1_def start_epoch_def demo_collab_def demo_task_def
        init_training_state_def Let_def cur_num_minibatches_def emit_def upt_conv_Cons)

lemma sum_bundle_builder:
  "fst (sum_bundle nodes lb loss) = lb\<lparr>loss_nodes := loss_nodes lb @ nodes\<rparr>"
  by (induction nodes lb loss rule: sum_bundle.induct) (simp_all add: add_loss_def)

lemma sum_bundle_some:
  "\<exists>p. snd (sum_bundle nodes lb (Some l)) = Some p
       \<and> eval_expr p = eval_expr l + terms_total nodes
       \<and> backprop_inputs p = backprop_inputs l @ concat (map (\<lambda>node. backprop_inputs (snd node)) nodes)"
proof (induction nodes arbitrary: lb l)
  case Nil
  then show ?case by (simp add: terms_total_def)
next
  case (Cons node nodes)
  obtain n e where node: "node = (n, e)" by (cases node)
  from Cons [of "add_loss n e lb" "Add l e"] node show ?case
    by (auto simp: add.assoc terms_total_def)
qed

lemma sum_bundle_none:
  assumes "nodes \<noteq> []"
  shows "\<exists>p. snd (sum_bundle nodes lb None) = Some p
       \<and> eval_expr p = terms_total nodes
       \<and> backprop_inputs p = concat (map (\<lambda>node. backprop_inputs (snd node)) nodes)"
proof -
  from assms obtain n e rest where nodes: "nodes = (n, e) # rest"
    by (cases nodes) auto
  from sum_bundle_some [of rest "add_loss n e lb" e] nodes show ?thesis
    by (auto simp: terms_total_def)
qed

lemma training_step_eq:
  assumes "primary_loss standard_loss = Some p"
  shows "training_step calc_additional_loss standard_loss
           = Inr (compute \<lparr>loss_nodes = recorded_terms standard_loss
                              @ additional_terms (calc_additional_loss (NoBackprop (Neg p)))\<rparr>,
                  \<lparr>loss_nodes = recorded_terms standard_loss
                      @ additional_terms (calc_additional_loss (NoBackprop (Neg p)))\<rparr>)"
proof (cases standard_loss)
  case (Single e)
  with assms show ?thesis
    by (simp add: training_step_def primary_loss_def recorded_terms_def additional_terms_def
          add_loss_def new_loss_builder_def Let_def split: option.splits)
next
  case (Bundle nodes)
  obtain lb l where s: "sum_bundle nodes new_loss_builder None = (lb, l)"
    by (cases "sum_bundle nodes new_loss_builder None")
  with sum_bundle_builder [of nodes new_loss_builder None]
  have lb: "lb = \<lparr>loss_nodes = nodes\<rparr>" by (simp add: new_loss_builder_def)
  from assms Bundle s have l: "l = Some p" by (simp add: primary_loss_def)
  from Bundle s lb l show ?thesis
    by (simp add: training_step_def recorded_terms_def additional_terms_def
          add_loss_def Let_def split: option.splits)
qed

lemma training_step_empty_bundle:
  "training_step calc_additional_loss (Bundle []) = Inl TypeError"
  by (simp add: training_step_def)

lemma demo_epoch2_fields:
  "minibatch_order demo_epoch2 = [0, 1, 2]"
  "src_batches demo_epoch2 = [[''a''], [''b''], [''c'']]"
  "trg_batches demo_epoch2 = [[''x''], [''y''], [''z'']]"
  by (simp_all add: demo_epoch2_def start_epoch_batches shuffled_def packed_def drawn_seed_def
        set_steps_into_epoch_def demo_epoch1_fields demo_collab_def upt_conv_Cons)

lemma epoch_loop_empty_corpus:
  "src_data t = [] \<Longrightarrow> trg_data t = [] \<Longrightarrow> reload_command t = None \<Longrightarrow>
   epoch_loop empty_collab obs t = None"
proof (induction obs arbitrary: t)
  case Nil
  then show ?case by simp
next
  case (Cons ob obs)
  let ?u = "start_epoch empty_collab t"
  from Cons.prems have a: "advance_epoch empty_collab ob t = Inr ?u"
    by (simp add: advance_epoch_def)
  from Cons.prems have m: "minibatch_order ?u = []"
    by (simp add: start_epoch_batches shuffled_def packed_def empty_collab_def demo_collab_def)
  from Cons.prems have "epoch_loop empty_collab obs ?u = None"
    by (intro Cons.IH) (simp_all add: start_epoch_state)
  with a m show ?case by simp
qed

lemma empty_task_fields:
  "fst (read_training_corpus empty_collab demo_task) = None"
  "src_data empty_task = []" "trg_data empty_task = []" "reload_command empty_task = None"
  "src_batches empty_task = []"
  by (simp_all add: empty_task_def read_training_corpus_def read_and_pack_def empty_collab_def
        demo_collab_def demo_task_def Let_def emit_def)

lemma advance_epoch_no_reload:
  "reload_command t = None \<Longrightarrow> advance_epoch c ob t = Inr (start_epoch c t)"
  by (simp add: advance_epoch_def)

lemma advance_epoch_post:
  assumes "library_contract c" and "advance_epoch c ob t = Inr t'"
  shows "epoch_seed (training_state t') = fst (randint c (py_random t) 1 2147483647)
    \<and> 1 \<le> epoch_seed (training_state t') \<and> epoch_seed (training_state t') \<le> 2 ^ 31 - 1
    \<and> epoch_num (training_state t') = epoch_num (training_state t) + 1
    \<and> steps_into_epoch (training_state t') = 0
    \<and> mset (minibatch_order t') = mset [0 ..< nat (cur_num_minibatches t')]
    \<and> (\<exists>pre. effects t'
           = effects t @ pre
             @ [RandInt 1 (2 ^ 31 - 1), RandomSeed (epoch_seed (training_state t')),
                NpRandomSeed (epoch_seed (training_state t')), Pack, Shuffle,
                NewEpoch (epoch_num (training_state t')) (cur_num_sentences t')]
         \<and> (reload_command t = None \<longrightarrow> pre = []))"
  using assms(2)
proof (cases rule: advance_epoch_start)
  case (1 u pre)
  have d: "drawn_seed c u = fst (randint c (py_random t) 1 2147483647)"
    using 1 by (simp add: drawn_seed_def)
  from assms(1) have "1 \<le> fst (randint c (py_random t) 1 2147483647)
      \<and> fst (randint c (py_random t) 1 2147483647) \<le> 2147483647"
    by (simp add: library_contract_def)
  moreover have "mset (minibatch_order t') = mset [0 ..< nat (cur_num_minibatches t')]"
    using 1(1) shuffled_perm [OF assms(1)]
    by (simp add: start_epoch_batches cur_num_minibatches_def)
  ultimately show ?thesis
    using 1 d
    by (simp add: start_epoch_state start_epoch_effects cur_num_sentences_def)
qed

subsection \<open>The stop condition\<close>

text \<open>
  C1 fails as stated: \<open>should_stop_training\<close> is also true once
  \<open>early_stopping_reached\<close> is set, whatever the epoch counters are. Here the task
  is in epoch 0 of 2 and has three batches, and the answer is \<open>True\<close>.
\<close>

theorem should_stop_training_counterexample:
  "should_stop_training stopped_task = Inr True
   \<and> run_for_epochs stopped_task = Some 2
   \<and> \<not> (epoch_num (training_state stopped_task) > 2
         \<or> (epoch_num (training_state stopped_task) = 2
             \<and> steps_into_epoch (training_state stopped_task)
                  \<ge> cur_num_minibatches stopped_task - 1))"
  by (simp add: should_stop_training_def stopped_task_def demo_task_def
        init_training_state_def cur_num_minibatches_def)

text \<open>
  C1, amended: for a configured integer \<open>run_for_epochs\<close>, \<open>should_stop_training\<close>
  returns true if and only if \<open>early_stopping_reached\<close> is set, or
  \<open>epoch_num > run_for_epochs\<close>, or \<open>epoch_num = run_for_epochs\<close> and
  \<open>steps_into_epoch \<ge> cur_num_minibatches() - 1\<close>. In particular, without early
  stopping, with \<open>run_for_epochs = 2\<close> and three batches, it is true exactly from
  \<open>steps_into_epoch = 2\<close> of epoch 2 on.
\<close>

theorem should_stop_training_iff:
  assumes "run_for_epochs t = Some r"
  shows "should_stop_training t =
           Inr (early_stopping_reached t
                \<or> epoch_num (training_state t) > r
                \<or> (epoch_num (training_state t) = r
                    \<and> steps_into_epoch (training_state t) \<ge> cur_num_minibatches t - 1))
         \<and> (\<not> early_stopping_reached t \<and> r = 2 \<and> cur_num_minibatches t = 3 \<longrightarrow>
              (should_stop_training t = Inr True \<longleftrightarrow>
                 epoch_num (training_state t) > 2
                 \<or> (epoch_num (training_state t) = 2 \<and> steps_into_epoch (training_state t) \<ge> 2)))"
  using assms by (auto simp: should_stop_training_def)

text \<open>
  The theorem at epoch 2 of 2 with three batches: not yet at step 1, stop at step 2.
\<close>

theorem should_stop_training_iff_witness:
  "run_for_epochs demo_task = Some 2 \<and> \<not> early_stopping_reached demo_task
   \<and> cur_num_minibatches demo_task = 3
   \<and> should_stop_training
       (demo_task\<lparr>training_state := (init_training_state 7)\<lparr>epoch_num := 2, steps_into_epoch := 1\<rparr>\<rparr>)
     = Inr False
   \<and> should_stop_training
       (demo_task\<lparr>training_state := (init_training_state 7)\<lparr>epoch_num := 2, steps_into_epoch := 2\<rparr>\<rparr>)
     = Inr True"
proof -
  let ?a = "demo_task\<lparr>training_state := (init_training_state 7)\<lparr>epoch_num := 2, steps_into_epoch := 1\<rparr>\<rparr>"
  let ?b = "demo_task\<lparr>training_state := (init_training_state 7)\<lparr>epoch_num := 2, steps_into_epoch := 2\<rparr>\<rparr>"
  have ra: "run_for_epochs ?a = Some 2" and rb: "run_for_epochs ?b = Some 2"
    by (simp_all add: demo_task_def)
  from should_stop_training_iff [OF ra] should_stop_training_iff [OF rb]
  show ?thesis
    by (simp add: demo_task_def init_training_state_def cur_num_minibatches_def)
qed

subsection \<open>The decay rule of \<open>checkpoint\<close>\<close>

text \<open>
  C2 fails as stated: the decay rule is inside \<open>if self.lr_decay < 1.0\<close>. With the
  default \<open>lr_decay = 1.0\<close>, \<open>patience = 1\<close> and no \<open>initial_patience\<close>, a first
  failed checkpoint gives \<open>cur_attempt = 1 \<ge> patience\<close>, and nothing is decayed.
\<close>

theorem checkpoint_no_decay_counterexample:
  "checkpoint True [] False (demo_task\<lparr>lr_decay := 1, patience := 1, initial_patience := None\<rparr>)
     = Inr (False, demo_task\<lparr>lr_decay := 1, patience := 1, initial_patience := None,
                     training_state := (init_training_state 7)\<lparr>cur_attempt := 1\<rparr>,
                     effects := [NewDev, Print ''> Checkpoint'', ReportDev]\<rparr>)
   \<and> patience (demo_task\<lparr>lr_decay := 1, patience := 1, initial_patience := None\<rparr>)
       \<le> cur_attempt ((init_training_state 7)\<lparr>cur_attempt := 1\<rparr>)
   \<and> num_times_lr_decayed ((init_training_state 7)\<lparr>cur_attempt := 1\<rparr>)
       = num_times_lr_decayed (training_state demo_task)
   \<and> check_lr_decay 1 = Inr 1"
  by (simp add: eval_defs check_lr_decay_def)

text \<open>
  C2, amended: for every \<open>checkpoint(control_learning_schedule=True)\<close> whose dev
  score does not improve, \<open>cur_attempt\<close> is incremented and a decay is triggered
  (\<open>num_times_lr_decayed\<close> goes up by one) exactly when \<open>lr_decay < 1.0\<close> and either
  (a) \<open>cur_attempt \<ge> patience\<close> and no \<open>initial_patience\<close> is configured or a decay
  has already occurred, or (b) an \<open>initial_patience\<close> is configured, no decay has
  occurred and \<open>cur_attempt \<ge> initial_patience\<close>, with \<open>cur_attempt\<close> the
  incremented value; otherwise counter, trainer and stop flag are unchanged. On an
  improving checkpoint \<open>cur_attempt\<close> is reset to 0.
\<close>

theorem checkpoint_decay_rule:
  assumes "checkpoint True evals improved t = Inr (ret, t')"
  shows "(\<not> improved \<longrightarrow>
            cur_attempt (training_state t') = cur_attempt (training_state t) + 1
            \<and> ((num_times_lr_decayed (training_state t')
                  = num_times_lr_decayed (training_state t) + 1) \<longleftrightarrow>
                 lr_decay t < 1
                 \<and> ((cur_attempt (training_state t') \<ge> patience t
                      \<and> (initial_patience t = None
                          \<or> num_times_lr_decayed (training_state t) > 0))
                     \<or> (\<exists>ip. initial_patience t = Some ip
                              \<and> num_times_lr_decayed (training_state t) = 0
                              \<and> cur_attempt (training_state t') \<ge> ip)))
            \<and> (num_times_lr_decayed (training_state t')
                  \<noteq> num_times_lr_decayed (training_state t) + 1 \<longrightarrow>
                 num_times_lr_decayed (training_state t') = num_times_lr_decayed (training_state t)
                 \<and> the_trainer t' = the_trainer t
                 \<and> early_stopping_reached t' = early_stopping_reached t))
         \<and> (improved \<longrightarrow> cur_attempt (training_state t') = 0)"
  using assms
proof (cases rule: checkpoint_cases)
  case eval_only
  then show ?thesis by simp
next
  case improved
  then show ?thesis by simp
next
  case (waiting u)
  from waiting(3) have "should_decay u
      = should_decay (set_cur_attempt (cur_attempt (training_state t) + 1) t)"
    by (rule should_decay_cong)
  with waiting show ?thesis
    by (auto simp: sched_frame_def should_decay_iff)
next
  case (decay u)
  from decay(3) have "should_decay u
      = should_decay (set_cur_attempt (cur_attempt (training_state t) + 1) t)"
    by (rule should_decay_cong)
  with decay show ?thesis
    by (auto simp: sched_frame_def should_decay_iff apply_decay_simps)
qed

text \<open>
  The theorem with \<open>initial_patience = 1\<close>, \<open>patience = 3\<close>, \<open>lr_decay = 0.5\<close>
  and no decay so far: the first failed checkpoint decays the learning rate.
\<close>

theorem checkpoint_decay_rule_witness:
  "checkpoint True [] False demo_task
     = Inr (False, demo_task\<lparr>training_state :=
                       (init_training_state 7)\<lparr>num_times_lr_decayed := 1, cur_attempt := 1\<rparr>,
                     the_trainer := \<lparr>learning_rate = 1/2\<rparr>,
                     effects := [NewDev, Print ''> Checkpoint'', ReportDev,
                                 Print ''  new learning rate'']\<rparr>)
   \<and> lr_decay demo_task < 1 \<and> initial_patience demo_task = Some 1
   \<and> num_times_lr_decayed (training_state demo_task) = 0"
proof -
  have cp: "checkpoint True [] False demo_task
     = Inr (False, demo_task\<lparr>training_state :=
                       (init_training_state 7)\<lparr>num_times_lr_decayed := 1, cur_attempt := 1\<rparr>,
                     the_trainer := \<lparr>learning_rate = 1/2\<rparr>,
                     effects := [NewDev, Print ''> Checkpoint'', ReportDev,
                                 Print ''  new learning rate'']\<rparr>)"
    by (simp add: eval_defs)
  from checkpoint_decay_rule [OF cp] cp show ?thesis
    by (simp add: demo_task_def init_training_state_def)
qed

subsection \<open>The effect of a decay\<close>

text \<open>
  C3: when a checkpoint decays (control of the schedule, no improvement,
  \<open>lr_decay < 1.0\<close> and \<open>should_decay\<close> on the incremented \<open>cur_attempt\<close>),
  \<open>num_times_lr_decayed\<close> goes up by one; if the new value exceeds \<open>lr_decay_times\<close>
  early stopping is set and the learning rate is unchanged, otherwise the learning rate
  is multiplied by \<open>lr_decay\<close>. With \<open>lr_decay_times = 2\<close> the decay after two
  earlier ones sets early stopping. No call of a run makes \<open>num_times_lr_decayed\<close>
  smaller.
\<close>

theorem checkpoint_decay_effect:
  "(checkpoint ctl evals improved t = Inr (ret, t') \<longrightarrow>
      num_times_lr_decayed (training_state t) \<le> num_times_lr_decayed (training_state t')
      \<and> (ctl \<and> \<not> improved \<and> lr_decay t < 1
           \<and> should_decay (set_cur_attempt (cur_attempt (training_state t) + 1) t) \<longrightarrow>
          num_times_lr_decayed (training_state t') = num_times_lr_decayed (training_state t) + 1
          \<and> (if num_times_lr_decayed (training_state t') > lr_decay_times t
             then early_stopping_reached t'
                  \<and> learning_rate (the_trainer t') = learning_rate (the_trainer t)
             else learning_rate (the_trainer t') = learning_rate (the_trainer t) * lr_decay t
                  \<and> early_stopping_reached t' = early_stopping_reached t)
          \<and> (lr_decay_times t = 2 \<and> num_times_lr_decayed (training_state t) = 2 \<longrightarrow>
               early_stopping_reached t'
               \<and> learning_rate (the_trainer t') = learning_rate (the_trainer t))))
   \<and> (run c acts (fr, t) = Some (Inr (fr2, t2)) \<longrightarrow>
        num_times_lr_decayed (training_state t) \<le> num_times_lr_decayed (training_state t2))"
proof (intro conjI impI)
  assume cp: "checkpoint ctl evals improved t = Inr (ret, t')"
  then show "num_times_lr_decayed (training_state t) \<le> num_times_lr_decayed (training_state t')"
    by (rule checkpoint_decayed_mono)
  assume el: "ctl \<and> \<not> improved \<and> lr_decay t < 1
              \<and> should_decay (set_cur_attempt (cur_attempt (training_state t) + 1) t)"
  from cp obtain u where
    u: "sched_frame (set_cur_attempt (cur_attempt (training_state t) + 1) t) u"
    and t': "t' = apply_decay u"
    using el by (cases rule: checkpoint_cases) (auto simp: should_decay_cong)
  from u have fu: "num_times_lr_decayed (training_state u) = num_times_lr_decayed (training_state t)"
    "the_trainer u = the_trainer t" "early_stopping_reached u = early_stopping_reached t"
    "lr_decay u = lr_decay t" "lr_decay_times u = lr_decay_times t"
    by (simp_all add: sched_frame_def)
  show n: "num_times_lr_decayed (training_state t') = num_times_lr_decayed (training_state t) + 1"
    using t' fu by (simp add: apply_decay_simps)
  show "if num_times_lr_decayed (training_state t') > lr_decay_times t
        then early_stopping_reached t'
             \<and> learning_rate (the_trainer t') = learning_rate (the_trainer t)
        else learning_rate (the_trainer t') = learning_rate (the_trainer t) * lr_decay t
             \<and> early_stopping_reached t' = early_stopping_reached t"
    using t' fu by (simp add: apply_decay_simps)
  assume "lr_decay_times t = 2 \<and> num_times_lr_decayed (training_state t) = 2"
  then show "early_stopping_reached t'" "learning_rate (the_trainer t') = learning_rate (the_trainer t)"
    using t' fu by (simp_all add: apply_decay_simps)
next
  assume "run c acts (fr, t) = Some (Inr (fr2, t2))"
  then show "num_times_lr_decayed (training_state t) \<le> num_times_lr_decayed (training_state t2)"
    by (rule run_decayed_mono)
qed

text \<open>
  The theorem with \<open>lr_decay_times = 2\<close>: at the third decay, and over a run of four
  failed checkpoints from the start (decays at the first, third and fourth).
\<close>

theorem checkpoint_decay_effect_witness:
  "checkpoint True [] False
     (demo_task\<lparr>training_state :=
        (init_training_state 7)\<lparr>num_times_lr_decayed := 2, cur_attempt := 3\<rparr>,
        the_trainer := \<lparr>learning_rate = 1/4\<rparr>\<rparr>)
   = Inr (False,
       demo_task\<lparr>training_state :=
         (init_training_state 7)\<lparr>num_times_lr_decayed := 3, cur_attempt := 4\<rparr>,
         the_trainer := \<lparr>learning_rate = 1/4\<rparr>,
         early_stopping_reached := True,
         effects := [NewDev, Print ''> Checkpoint'', ReportDev, Print ''  Early stopping'']\<rparr>)
   \<and> run demo_collab (replicate 4 (DoCheckpoint True [] False)) (NotStarted, demo_task)
     = Some (Inr (NotStarted,
         demo_task\<lparr>training_state :=
           (init_training_state 7)\<lparr>num_times_lr_decayed := 3, cur_attempt := 4\<rparr>,
           the_trainer := \<lparr>learning_rate = 1/4\<rparr>,
           early_stopping_reached := True,
           effects := [NewDev, Print ''> Checkpoint'', ReportDev, Print ''  new learning rate'',
                       NewDev, Print ''> Checkpoint'', ReportDev,
                       NewDev, Print ''> Checkpoint'', ReportDev, Print ''  new learning rate'',
                       NewDev, Print ''> Checkpoint'', ReportDev, Print ''  Early stopping'']\<rparr>))
   \<and> lr_decay_times demo_task = 2"
proof -
  let ?t = "demo_task\<lparr>training_state :=
        (init_training_state 7)\<lparr>num_times_lr_decayed := 2, cur_attempt := 3\<rparr>,
        the_trainer := \<lparr>learning_rate = 1/4\<rparr>\<rparr>"
  let ?t' = "demo_task\<lparr>training_state :=
         (init_training_state 7)\<lparr>num_times_lr_decayed := 3, cur_attempt := 4\<rparr>,
         the_trainer := \<lparr>learning_rate = 1/4\<rparr>,
         early_stopping_reached := True,
         effects := [NewDev, Print ''> Checkpoint'', ReportDev, Print ''  Early stopping'']\<rparr>"
  let ?t5 = "demo_task\<lparr>training_state :=
           (init_training_state 7)\<lparr>num_times_lr_decayed := 3, cur_attempt := 4\<rparr>,
           the_trainer := \<lparr>learning_rate = 1/4\<rparr>,
           early_stopping_reached := True,
           effects := [NewDev, Print ''> Checkpoint'', ReportDev, Print ''  new learning rate'',
                       NewDev, Print ''> Checkpoint'', ReportDev,
                       NewDev, Print ''> Checkpoint'', ReportDev, Print ''  new learning rate'',
                       NewDev, Print ''> Checkpoint'', ReportDev, Print ''  Early stopping'']\<rparr>"
  have cp: "checkpoint True [] False ?t = Inr (False, ?t')"
    by (simp add: eval_defs)
  have rn: "run demo_collab (replicate 4 (DoCheckpoint True [] False)) (NotStarted, demo_task)
              = Some (Inr (NotStarted, ?t5))"
    by (simp add: eval_defs numeral_eq_Suc)
  from checkpoint_decay_effect [of True "[]" False ?t False ?t' demo_collab
         "replicate 4 (DoCheckpoint True [] False)" NotStarted NotStarted ?t5]
  show ?thesis using cp rn by (simp add: demo_task_def)
qed

subsection \<open>The epoch boundary of \<open>next_minibatch\<close>\<close>

text \<open>
  C4 fails as stated: when the epoch that \<open>advance_epoch\<close> starts has no minibatch,
  the \<open>for\<close> loop yields nothing and the \<open>while True\<close> loop calls \<open>advance_epoch\<close>
  again. With an empty corpus \<open>cur_num_minibatches()\<close> is 0 and the next pull does not
  reach a \<open>yield\<close> after one call, nor after three.
\<close>

theorem next_minibatch_empty_epoch_counterexample:
  "fst (read_training_corpus empty_collab demo_task) = None
   \<and> cur_num_minibatches empty_task = 0
   \<and> advance_epoch empty_collab demo_ob empty_task = Inr (start_epoch empty_collab empty_task)
   \<and> minibatch_order (start_epoch empty_collab empty_task) = []
   \<and> next_minibatch empty_collab [demo_ob] NotStarted empty_task = None
   \<and> next_minibatch empty_collab [demo_ob, demo_ob, demo_ob] NotStarted empty_task = None"
proof -
  have a: "advance_epoch empty_collab demo_ob empty_task = Inr (start_epoch empty_collab empty_task)"
    by (simp add: advance_epoch_def empty_task_fields)
  have m: "minibatch_order (start_epoch empty_collab empty_task) = []"
    by (simp add: start_epoch_batches shuffled_def packed_def empty_task_fields
          empty_collab_def demo_collab_def)
  have n: "next_minibatch empty_collab obs NotStarted empty_task = None" for obs
    by (simp add: next_minibatch_def epoch_loop_empty_corpus empty_task_fields
          del: epoch_loop.simps)
  have c: "cur_num_minibatches empty_task = 0"
    by (simp add: cur_num_minibatches_def empty_task_fields)
  from empty_task_fields(1) c a m n show ?thesis by simp
qed

text \<open>
  C4, amended: after the pulls of an epoch have been drained (the consumer holds the
  first pull of the epoch, and as many further pulls are made as the epoch has further
  minibatches), the next pull triggers exactly one call to \<open>advance_epoch\<close> before
  yielding, provided the epoch it starts has at least one minibatch; and
  \<open>steps_into_epoch\<close> is incremented only when the generator is resumed, so at the
  consumption of pull number \<open>k\<close> of an epoch it is \<open>k - 1\<close>. The library and the
  batcher are assumed to keep their contracts.
\<close>

theorem next_minibatch_epoch_boundary:
  assumes "library_contract c" and "batcher_contract c"
    and "at_yield 0 fr t"
    and "length obss + 1 = length (minibatch_order t)"
    and "advance_epoch c ob (set_steps_into_epoch (cur_num_minibatches t) t) = Inr t2"
    and "minibatch_order t2 \<noteq> []"
  shows "pulls c (obss @ [ob # obs]) fr t
           = Some (Inr (map (\<lambda>j. ((src_batches t ! (minibatch_order t ! j),
                                    trg_batches t ! (minibatch_order t ! j)),
                                   int j, epoch_num (training_state t)))
                          [1 ..< length (minibatch_order t)]
                        @ [((src_batches t2 ! hd (minibatch_order t2),
                             trg_batches t2 ! hd (minibatch_order t2)),
                            0, epoch_num (training_state t) + 1)],
                        AtYield (tl (minibatch_order t2)), t2))
    \<and> epoch_num (training_state t2) = epoch_num (training_state t) + 1
    \<and> at_yield 0 (AtYield (tl (minibatch_order t2))) t2"
proof -
  let ?n = "length (minibatch_order t)"
  let ?k = "length obss"
  let ?t1 = "set_steps_into_epoch (int ?k) t"
  let ?fr1 = "AtYield (drop (Suc ?k) (minibatch_order t))"
  from assms(4) have lt: "0 + ?k < ?n" and sk: "Suc ?k = ?n" by simp_all
  from pulls_within_epoch [OF assms(3) lt, of c]
  have w: "pulls c obss fr t
      = Some (Inr (map (\<lambda>j. ((src_batches t ! (minibatch_order t ! j),
                               trg_batches t ! (minibatch_order t ! j)),
                              int j, epoch_num (training_state t)))
                     [1 ..< ?n], ?fr1, ?t1))"
    and ay: "at_yield ?k ?fr1 ?t1"
    using sk by simp_all
  from assms(3) have "cur_num_minibatches t = int ?n" by (simp add: at_yield_def)
  with assms(5) sk have adv: "advance_epoch c ob (set_steps_into_epoch (int (Suc ?k)) ?t1) = Inr t2"
    by simp
  from sk have sk1: "Suc ?k = length (minibatch_order ?t1)" by simp
  have b: "next_minibatch c (ob # obs) ?fr1 ?t1
      = Some (Inr ((src_batches t2 ! hd (minibatch_order t2),
                    trg_batches t2 ! hd (minibatch_order t2)),
                   AtYield (tl (minibatch_order t2)), t2))"
    by (rule pull_at_boundary [OF assms(1,2) ay sk1 adv assms(6)])
  note a = advance_epoch_at_yield(2,3) [OF assms(1,2) adv assms(6)]
  from a(1) have st: "steps_into_epoch (training_state t2) = 0" by (simp add: at_yield_def)
  from a(2) have en: "epoch_num (training_state t2) = epoch_num (training_state t) + 1" by simp
  from pulls_snoc [OF w b] st en a(1) show ?thesis by simp
qed

text \<open>
  The theorem on the small instance: the consumer holds the first pull of epoch 1, two
  more pulls drain it, the fourth pull starts epoch 2.
\<close>

theorem next_minibatch_epoch_boundary_witness:
  "library_contract demo_collab \<and> batcher_contract demo_collab
   \<and> at_yield 0 (AtYield [1, 0]) demo_epoch1
   \<and> advance_epoch demo_collab demo_ob
        (set_steps_into_epoch (cur_num_minibatches demo_epoch1) demo_epoch1) = Inr demo_epoch2
   \<and> minibatch_order demo_epoch2 \<noteq> []
   \<and> pulls demo_collab [[], [], [demo_ob]] (AtYield [1, 0]) demo_epoch1
       = Some (Inr ([(([''b''], [''y'']), 1, 1), (([''a''], [''x'']), 2, 1),
                     (([''a''], [''x'']), 0, 2)], AtYield [1, 2], demo_epoch2))"
proof -
  have ay: "at_yield 0 (AtYield [1, 0]) demo_epoch1"
    by (simp add: at_yield_def demo_epoch1_fields cur_num_minibatches_def init_training_state_def)
  have ln: "length [[], [] :: observation list] + 1 = length (minibatch_order demo_epoch1)"
    by (simp add: demo_epoch1_fields)
  have adv: "advance_epoch demo_collab demo_ob
        (set_steps_into_epoch (cur_num_minibatches demo_epoch1) demo_epoch1) = Inr demo_epoch2"
    by (simp add: advance_epoch_def demo_epoch2_def set_steps_into_epoch_def demo_epoch1_fields
          cur_num_minibatches_def)
  have ne: "minibatch_order demo_epoch2 \<noteq> []" by (simp add: demo_epoch2_fields)
  from next_minibatch_epoch_boundary
         [OF demo_library_contract demo_batcher_contract ay ln adv ne, of "[]"]
  show ?thesis
    using demo_library_contract demo_batcher_contract ay adv ne
    by (simp add: demo_epoch1_fields demo_epoch2_fields init_training_state_def upt_conv_Cons)
qed

subsection \<open>\<open>advance_epoch\<close>\<close>

text \<open>
  A call of \<open>advance_epoch\<close> that returns has drawn the seed, incremented
  \<open>epoch_num\<close>, reset \<open>steps_into_epoch\<close>, permuted the batch indices and
  reseeded, packed, shuffled and notified in this order (\<open>advance_epoch_post\<close>), and
  without a reload command every call returns (\<open>advance_epoch_no_reload\<close>). On the
  first epoch of the small instance:
\<close>

lemma advance_epoch_first_epoch:
  "advance_epoch demo_collab demo_ob demo_task = Inr demo_epoch1
   \<and> training_state demo_epoch1 = (init_training_state 7)\<lparr>epoch_num := 1, epoch_seed := 1\<rparr>
   \<and> minibatch_order demo_epoch1 = [2, 1, 0]
   \<and> effects demo_epoch1
       = [RandInt 1 2147483647, RandomSeed 1, NpRandomSeed 1, Pack, Shuffle, NewEpoch 1 3]"
proof -
  have adv: "advance_epoch demo_collab demo_ob demo_task = Inr demo_epoch1"
    by (simp add: advance_epoch_def demo_epoch1_def demo_task_def)
  from advance_epoch_post [OF demo_library_contract adv] adv
  show ?thesis
    by (auto simp: demo_epoch1_fields demo_task_def cur_num_sentences_def)
qed

text \<open>
  C5 (every call to \<open>advance_epoch\<close> draws a fresh \<open>epoch_seed\<close>, increments
  \<open>epoch_num\<close> by 1, resets \<open>steps_into_epoch\<close>, permutes the batch indices and
  reseeds, repacks, shuffles and notifies in this order) does not hold of the code: a
  task constructed with the reload command \<open>true\<close> raises \<open>AttributeError\<close> at its
  first \<open>advance_epoch\<close>, at line 202, before a seed is drawn; \<open>epoch_num\<close> stays 0
  and no effect of a new epoch takes place.
\<close>

theorem advance_epoch_reload_raises:
  "augment_data_initial demo_ob reload_config_task = Inr reload_task
   \<and> epoch_num (training_state reload_task) = 0
   \<and> advance_epoch demo_collab demo_ob reload_task = Inl AttributeError
   \<and> advance_epoch demo_collab exited_ob reload_task = Inl AttributeError"
  by (simp add: augment_data_initial_def advance_epoch_def augment_data_next_epoch_def
        launch_first_def poll_def Let_def emit_def reload_task_def reload_config_task_def
        demo_task_def demo_ob_def init_training_state_def)

subsection \<open>Determinism of the shuffle\<close>

text \<open>
  C7: two calls of \<open>advance_epoch\<close> with the same collaborators, on tasks with the
  same corpus, that end with the same \<open>epoch_seed\<close>, end with the same batches and
  the same \<open>minibatch_order\<close>, and draining that order yields the same sequence of
  batch pairs.
\<close>

theorem advance_epoch_deterministic:
  assumes "advance_epoch c ob1 t1 = Inr t1'" and "advance_epoch c ob2 t2 = Inr t2'"
    and "epoch_seed (training_state t1') = epoch_seed (training_state t2')"
    and "src_data t1 = src_data t2" and "trg_data t1 = trg_data t2"
  shows "minibatch_order t1' = minibatch_order t2'
    \<and> src_batches t1' = src_batches t2' \<and> trg_batches t1' = trg_batches t2'
    \<and> drain_order (minibatch_order t1') t1' = drain_order (minibatch_order t2') t2'"
proof -
  from assms(1) obtain u1 where u1: "t1' = start_epoch c u1"
    "src_data u1 = src_data t1" "trg_data u1 = trg_data t1"
    by (cases rule: advance_epoch_start) simp
  from assms(2) obtain u2 where u2: "t2' = start_epoch c u2"
    "src_data u2 = src_data t2" "trg_data u2 = trg_data t2"
    by (cases rule: advance_epoch_start) simp
  from assms(3) u1(1) u2(1) have s: "drawn_seed c u1 = drawn_seed c u2"
    by (simp add: start_epoch_state)
  have b: "minibatch_order t1' = minibatch_order t2'"
    "src_batches t1' = src_batches t2'" "trg_batches t1' = trg_batches t2'"
    using u1 u2 s assms(4,5) by (simp_all add: start_epoch_batches)
  from b(2,3) have "drain_order (minibatch_order t1') t1' = drain_order (minibatch_order t1') t2'"
    by (rule drain_order_cong)
  with b show ?thesis by simp
qed

text \<open>
  The theorem for two tasks at different epochs and with different generator states
  that both draw the seed 1.
\<close>

theorem advance_epoch_deterministic_witness:
  "advance_epoch demo_collab demo_ob demo_task = Inr demo_epoch1
   \<and> advance_epoch demo_collab exited_ob late_task = Inr (start_epoch demo_collab late_task)
   \<and> epoch_seed (training_state demo_epoch1) = 1
   \<and> epoch_seed (training_state (start_epoch demo_collab late_task)) = 1
   \<and> src_data demo_task = src_data late_task \<and> trg_data demo_task = trg_data late_task
   \<and> py_random demo_task \<noteq> py_random late_task
   \<and> minibatch_order (start_epoch demo_collab late_task) = [2, 1, 0]
   \<and> drain_order [2, 1, 0] (start_epoch demo_collab late_task)
       = Inr [([''c''], [''z'']), ([''b''], [''y'']), ([''a''], [''x''])]"
proof -
  let ?u = "start_epoch demo_collab late_task"
  have a1: "advance_epoch demo_collab demo_ob demo_task = Inr demo_epoch1"
    by (simp add: advance_epoch_def demo_epoch1_def demo_task_def)
  have a2: "advance_epoch demo_collab exited_ob late_task = Inr ?u"
    by (simp add: advance_epoch_def late_task_def demo_task_def)
  have s1: "epoch_seed (training_state demo_epoch1) = 1"
    by (simp add: demo_epoch1_fields init_training_state_def)
  have s2: "epoch_seed (training_state ?u) = 1"
    by (simp add: start_epoch_state drawn_seed_def demo_collab_def late_task_def)
  have d: "src_data demo_task = src_data late_task" "trg_data demo_task = trg_data late_task"
    by (simp_all add: late_task_def)
  have g: "py_random demo_task \<noteq> py_random late_task"
    by (simp add: late_task_def demo_task_def)
  have dr: "drain_order [2, 1, 0] demo_epoch1
       = Inr [([''c''], [''z'']), ([''b''], [''y'']), ([''a''], [''x''])]"
    by (simp add: yield_batch_def demo_epoch1_fields)
  have m1: "minibatch_order demo_epoch1 = [2, 1, 0]" by (rule demo_epoch1_fields)
  from s1 s2 have s: "epoch_seed (training_state demo_epoch1) = epoch_seed (training_state ?u)"
    by simp
  note det = advance_epoch_deterministic [OF a1 a2 s d]
  from det m1 have m: "minibatch_order ?u = [2, 1, 0]" by simp
  from det have "drain_order (minibatch_order demo_epoch1) demo_epoch1
      = drain_order (minibatch_order ?u) ?u" by blast
  then have "drain_order [2, 1, 0] demo_epoch1 = drain_order [2, 1, 0] ?u"
    unfolding m1 m .
  with dr have "drain_order [2, 1, 0] ?u
      = Inr [([''c''], [''z'']), ([''b''], [''y'']), ([''a''], [''x''])]"
    by (simp only:)
  with a1 a2 s1 s2 d g m show ?thesis by blast
qed

subsection \<open>Loading the corpus\<close>

text \<open>
  C8: with the settings the constructor makes (\<open>sample_train_sents = False\<close>,
  \<open>max_num_train_sents = None\<close>), \<open>read_training_corpus\<close> raises exactly when the
  two sentence streams differ in length, that is when the paired iteration finds one
  exhausted before the other; when it returns, \<open>src_data\<close> and \<open>trg_data\<close> have
  equal length; when it raises, the batches are the ones from before the call and
  neither the readers are frozen nor the batcher called.
\<close>

theorem read_training_corpus_mismatch:
  "(sample_train_sents t = None \<and> max_num_train_sents t = None \<longrightarrow>
      (fst (read_training_corpus c t) \<noteq> None
         \<longleftrightarrow> length (read_src c None) \<noteq> length (read_trg c None)))
   \<and> (fst (read_training_corpus c t) = None \<longrightarrow>
        length (src_data (snd (read_training_corpus c t)))
          = length (trg_data (snd (read_training_corpus c t))))
   \<and> (fst (read_training_corpus c t) \<noteq> None \<longrightarrow>
        src_batches (snd (read_training_corpus c t)) = src_batches t
        \<and> trg_batches (snd (read_training_corpus c t)) = trg_batches t
        \<and> effects (snd (read_training_corpus c t)) = effects t)"
proof (intro conjI impI)
  assume "sample_train_sents t = None \<and> max_num_train_sents t = None"
  then show "fst (read_training_corpus c t) \<noteq> None
         \<longleftrightarrow> length (read_src c None) \<noteq> length (read_trg c None)"
    by (simp add: read_training_corpus_def Let_def read_and_pack_error)
next
  show "length (src_data (snd (read_training_corpus c t)))
          = length (trg_data (snd (read_training_corpus c t)))"
    by (simp add: read_training_corpus_def Let_def read_and_pack_lengths
             split: sum.splits prod.splits)
next
  assume e: "fst (read_training_corpus c t) \<noteq> None"
  then show "src_batches (snd (read_training_corpus c t)) = src_batches t"
    "trg_batches (snd (read_training_corpus c t)) = trg_batches t"
    "effects (snd (read_training_corpus c t)) = effects t"
    by (auto simp: read_training_corpus_def Let_def read_and_pack_raise_frame
             split: sum.splits prod.splits if_splits)
qed

text \<open>
  The theorem on a corpus of three pairs, and on one whose target file is one sentence
  short.
\<close>

theorem read_training_corpus_mismatch_witness:
  "sample_train_sents demo_task = None \<and> max_num_train_sents demo_task = None
   \<and> fst (read_training_corpus demo_collab demo_task) = None
   \<and> length (src_data (snd (read_training_corpus demo_collab demo_task))) = 3
   \<and> length (trg_data (snd (read_training_corpus demo_collab demo_task))) = 3
   \<and> fst (read_training_corpus short_collab demo_task)
       = Some (RuntimeError ''training src sentences don't match trg sentences'')
   \<and> src_batches (snd (read_training_corpus short_collab demo_task)) = src_batches demo_task
   \<and> effects (snd (read_training_corpus short_collab demo_task)) = []"
proof -
  have c: "sample_train_sents demo_task = None \<and> max_num_train_sents demo_task = None"
    by (simp add: demo_task_def)
  have ok: "fst (read_training_corpus demo_collab demo_task) = None"
    "length (src_data (snd (read_training_corpus demo_collab demo_task))) = 3"
    by (simp_all add: read_training_corpus_def read_and_pack_def demo_collab_def demo_task_def
          Let_def emit_def)
  have bad: "fst (read_training_corpus short_collab demo_task)
       = Some (RuntimeError ''training src sentences don't match trg sentences'')"
    by (simp add: read_training_corpus_def read_and_pack_def short_collab_def demo_collab_def
          demo_task_def Let_def mismatch_error_def)
  from read_training_corpus_mismatch [of demo_task demo_collab]
    read_training_corpus_mismatch [of demo_task short_collab]
  show ?thesis
    using c ok bad by (simp add: demo_task_def)
qed

subsection \<open>Polling the augmentation subprocess\<close>

text \<open>
  A subprocess that has not exited: with a reload command and an outstanding
  subprocess whose poll shows no exit,
  \<open>_augment_data_next_epoch\<close> changes neither corpus nor batches nor the handle and
  only polls and prints (no wait), and \<open>advance_epoch\<close> packs the batches of the new
  epoch from the unchanged corpus.
\<close>

lemma augment_data_next_epoch_running:
  assumes "reload_command t = Some cmd" and "augmentation_handle t = Some h"
    and "returncode (poll ob h) = None"
  shows "(\<exists>t'. augment_data_next_epoch ob t = Inr t'
                \<and> src_data t' = src_data t \<and> trg_data t' = trg_data t
                \<and> src_batches t' = src_batches t \<and> trg_batches t' = trg_batches t
                \<and> augmentation_handle t' = Some h
                \<and> effects t' = effects t
                     @ [Poll, Print ''new data set is not ready yet, using data from last epoch.''])
         \<and> (\<exists>t'. advance_epoch c ob t = Inr t'
                \<and> src_data t' = src_data t \<and> trg_data t' = trg_data t
                \<and> (src_batches t', trg_batches t')
                     = fst (packed c (drawn_seed c t) (src_data t) (trg_data t))
                \<and> Wait \<notin> set (drop (length (effects t)) (effects t')))"
proof (intro conjI)
  let ?u = "emit (Print ''new data set is not ready yet, using data from last epoch.'')
              (emit Poll t)"
  have a: "augment_data_next_epoch ob t = Inr ?u"
    using assms by (rule augment_running)
  from assms(2) show "\<exists>t'. augment_data_next_epoch ob t = Inr t'
                \<and> src_data t' = src_data t \<and> trg_data t' = trg_data t
                \<and> src_batches t' = src_batches t \<and> trg_batches t' = trg_batches t
                \<and> augmentation_handle t' = Some h
                \<and> effects t' = effects t
                     @ [Poll, Print ''new data set is not ready yet, using data from last epoch.'']"
    by (simp add: a)
  have d: "drawn_seed c ?u = drawn_seed c t" by (simp add: drawn_seed_def)
  have "advance_epoch c ob t = Inr (start_epoch c ?u)"
    using assms(1) a by (simp add: advance_epoch_def)
  then show "\<exists>t'. advance_epoch c ob t = Inr t'
                \<and> src_data t' = src_data t \<and> trg_data t' = trg_data t
                \<and> (src_batches t', trg_batches t')
                     = fst (packed c (drawn_seed c t) (src_data t) (trg_data t))
                \<and> Wait \<notin> set (drop (length (effects t)) (effects t'))"
    by (simp add: start_epoch_state start_epoch_batches start_epoch_effects d)
qed

lemma augment_data_next_epoch_running_example:
  "augment_data_next_epoch demo_ob running_task
     = Inr (running_task\<lparr>effects :=
              [Poll, Print ''new data set is not ready yet, using data from last epoch.'']\<rparr>)"
  by (simp add: augment_data_next_epoch_def launch_first_def Let_def emit_def poll_def
        demo_ob_def running_task_def reload_config_task_def demo_task_def)

text \<open>
  C9 (if the subprocess has exited, the corpus is reloaded from disk and a
  regeneration for the next epoch is launched in the background) does not hold of the
  code: with the subprocess exited, \<open>_augment_data_next_epoch\<close> raises
  \<open>AttributeError\<close> at line 202; nothing is reloaded and no subprocess is started.
  Here the task is as its constructor leaves it (\<open>_augment_data_initial\<close> has waited
  for the first subprocess), and a task whose running subprocess is found exited by the
  poll.
\<close>

theorem augment_data_next_epoch_exited_raises:
  "augmentation_handle reload_task = Some \<lparr>command = ''true --epoch 0'', returncode = Some 0\<rparr>
   \<and> augment_data_next_epoch demo_ob reload_task = Inl AttributeError
   \<and> returncode (poll exited_ob \<lparr>command = ''true --epoch 0'', returncode = None\<rparr>) = Some 0
   \<and> augment_data_next_epoch exited_ob running_task = Inl AttributeError"
  by (simp add: augment_data_next_epoch_def launch_first_def poll_def Let_def emit_def
        reload_task_def running_task_def reload_config_task_def demo_task_def exited_ob_def
        demo_ob_def init_training_state_def)

subsection \<open>The losses of \<open>training_step\<close>\<close>

text \<open>
  C6: for a bundle with at least one term, every named term is recorded, the primary
  scalar evaluates to the sum of the terms and so does the returned value when there is
  no additional loss (the returned value is the sum of all recorded terms); a single
  scalar is recorded as \<open>"loss"\<close>; an additional loss is recorded as
  \<open>"additional_loss"\<close>; the model's \<open>calc_additional_loss\<close> is applied to the
  gradient-blocked negative of the primary scalar only. The bundle \<open>{a: 2.0, b: 3.0}\<close>
  gives 5.0 and the breakdown \<open>{a: 2.0, b: 3.0}\<close>.
\<close>

theorem training_step_losses:
  "(nodes \<noteq> [] \<longrightarrow>
      (\<exists>p. primary_loss (Bundle nodes) = Some p
          \<and> eval_expr p = terms_total nodes
          \<and> (\<exists>loss_value lb.
                training_step calc_additional_loss (Bundle nodes) = Inr (loss_value, lb)
                \<and> loss_nodes lb
                    = nodes @ additional_terms (calc_additional_loss (NoBackprop (Neg p)))
                \<and> eval_expr loss_value = terms_total (loss_nodes lb)
                \<and> (calc_additional_loss (NoBackprop (Neg p)) = None \<longrightarrow>
                      eval_expr loss_value = terms_total nodes))))
   \<and> (\<exists>loss_value lb.
         training_step calc_additional_loss (Single e) = Inr (loss_value, lb)
         \<and> loss_nodes lb
             = (''loss'', e) # additional_terms (calc_additional_loss (NoBackprop (Neg e))))
   \<and> (\<forall>a. additional_terms (Some a) = [(''additional_loss'', a)])
   \<and> additional_terms None = []
   \<and> (primary_loss standard_loss = Some q \<longrightarrow>
        eval_expr (NoBackprop (Neg q)) = - eval_expr q
        \<and> backprop_inputs (NoBackprop (Neg q)) = []
        \<and> (\<forall>other. other (NoBackprop (Neg q)) = calc_additional_loss (NoBackprop (Neg q)) \<longrightarrow>
               training_step other standard_loss
                 = training_step calc_additional_loss standard_loss))
   \<and> (\<exists>loss_value.
         training_step (\<lambda>x. None) (Bundle [(''a'', Input 2), (''b'', Input 3)])
           = Inr (loss_value, \<lparr>loss_nodes = [(''a'', Input 2), (''b'', Input 3)]\<rparr>)
         \<and> eval_expr loss_value = 5)
   \<and> (\<exists>loss_value.
         training_step (\<lambda>x. Some (Input (3/2))) (Bundle [(''a'', Input 2), (''b'', Input 3)])
           = Inr (loss_value, \<lparr>loss_nodes = [(''a'', Input 2), (''b'', Input 3),
                                              (''additional_loss'', Input (3/2))]\<rparr>))"
proof (intro conjI impI allI)
  assume ne: "nodes \<noteq> []"
  from sum_bundle_none [OF ne, of new_loss_builder] obtain p where
    p: "primary_loss (Bundle nodes) = Some p"
    "eval_expr p = terms_total nodes"
    by (auto simp: primary_loss_def)
  let ?lb = "\<lparr>loss_nodes = nodes @ additional_terms (calc_additional_loss (NoBackprop (Neg p)))\<rparr>"
  have ts: "training_step calc_additional_loss (Bundle nodes) = Inr (compute ?lb, ?lb)"
    using training_step_eq [OF p(1), of calc_additional_loss] by (simp add: recorded_terms_def)
  have ev: "eval_expr (compute ?lb) = terms_total (loss_nodes ?lb)"
    by (simp add: compute_def comp_def terms_total_def)
  have "calc_additional_loss (NoBackprop (Neg p)) = None \<longrightarrow>
          eval_expr (compute ?lb) = terms_total nodes"
    by (simp add: compute_def comp_def terms_total_def additional_terms_def)
  with p ts ev show "\<exists>p. primary_loss (Bundle nodes) = Some p
          \<and> eval_expr p = terms_total nodes
          \<and> (\<exists>loss_value lb.
                training_step calc_additional_loss (Bundle nodes) = Inr (loss_value, lb)
                \<and> loss_nodes lb
                    = nodes @ additional_terms (calc_additional_loss (NoBackprop (Neg p)))
                \<and> eval_expr loss_value = terms_total (loss_nodes lb)
                \<and> (calc_additional_loss (NoBackprop (Neg p)) = None \<longrightarrow>
                      eval_expr loss_value = terms_total nodes))"
    by (intro exI [of _ p] conjI exI [of _ "compute ?lb"] exI [of _ ?lb]) simp_all
next
  have "primary_loss (Single e) = Some e" by (simp add: primary_loss_def)
  from training_step_eq [OF this, of calc_additional_loss]
  show "\<exists>loss_value lb.
         training_step calc_additional_loss (Single e) = Inr (loss_value, lb)
         \<and> loss_nodes lb
             = (''loss'', e) # additional_terms (calc_additional_loss (NoBackprop (Neg e)))"
    by (simp add: recorded_terms_def)
next
  fix a show "additional_terms (Some a) = [(''additional_loss'', a)]"
    by (simp add: additional_terms_def)
next
  show "additional_terms None = []" by (simp add: additional_terms_def)
next
  show "eval_expr (NoBackprop (Neg q)) = - eval_expr q" by simp
next
  show "backprop_inputs (NoBackprop (Neg q)) = []" by simp
next
  fix other
  assume "primary_loss standard_loss = Some q"
    and "other (NoBackprop (Neg q)) = calc_additional_loss (NoBackprop (Neg q))"
  then show "training_step other standard_loss = training_step calc_additional_loss standard_loss"
    by (simp add: training_step_eq)
next
  show "\<exists>loss_value.
         training_step (\<lambda>x. None) (Bundle [(''a'', Input 2), (''b'', Input 3)])
           = Inr (loss_value, \<lparr>loss_nodes = [(''a'', Input 2), (''b'', Input 3)]\<rparr>)
         \<and> eval_expr loss_value = 5"
    by (simp add: training_step_def new_loss_builder_def add_loss_def compute_def)
next
  show "\<exists>loss_value.
         training_step (\<lambda>x. Some (Input (3/2))) (Bundle [(''a'', Input 2), (''b'', Input 3)])
           = Inr (loss_value, \<lparr>loss_nodes = [(''a'', Input 2), (''b'', Input 3),
                                              (''additional_loss'', Input (3/2))]\<rparr>)"
    by (simp add: training_step_def new_loss_builder_def add_loss_def compute_def)
qed

text \<open>
  The theorem for the bundle \<open>{a: 2.0, b: 3.0}\<close> without additional loss, and for a
  single scalar with an additional loss.
\<close>

theorem training_step_losses_witness:
  "[(''a'', Input 2), (''b'', Input 3)] \<noteq> []
   \<and> primary_loss (Single (Input 4)) = Some (Input 4)
   \<and> training_step (\<lambda>x. None) (Bundle [(''a'', Input 2), (''b'', Input 3)])
       = Inr (ESum [Input 2, Input 3], \<lparr>loss_nodes = [(''a'', Input 2), (''b'', Input 3)]\<rparr>)
   \<and> eval_expr (ESum [Input 2, Input 3]) = 5
   \<and> training_step (\<lambda>x. Some x) (Single (Input 4))
       = Inr (ESum [Input 4, NoBackprop (Neg (Input 4))],
              \<lparr>loss_nodes = [(''loss'', Input 4),
                             (''additional_loss'', NoBackprop (Neg (Input 4)))]\<rparr>)"
proof -
  have p: "primary_loss (Single (Input 4)) = Some (Input 4)"
    by (simp add: primary_loss_def)
  from training_step_losses [of "[(''a'', Input 2), (''b'', Input 3)]" "\<lambda>x. None"
         "Input 4" "Single (Input 4)" "Input 4"] p
  show ?thesis
    by (simp add: training_step_def new_loss_builder_def add_loss_def compute_def)
qed

subsection \<open>A decay factor of exactly 1\<close>

text \<open>
  C10: \<open>lr_decay = 1.0\<close> passes the check of the constructor, and then no call of a
  run changes \<open>num_times_lr_decayed\<close> (0 after construction), the learning rate or
  \<open>early_stopping_reached\<close>, while every failed checkpoint that controls the
  schedule adds one to \<open>cur_attempt\<close>.
\<close>

theorem no_decay_at_lr_decay_one:
  assumes "lr_decay t = 1"
  shows "check_lr_decay (lr_decay t) = Inr 1
    \<and> (run c acts (fr, t) = Some (Inr (fr', t')) \<longrightarrow>
         num_times_lr_decayed (training_state t') = num_times_lr_decayed (training_state t)
         \<and> learning_rate (the_trainer t') = learning_rate (the_trainer t)
         \<and> early_stopping_reached t' = early_stopping_reached t)
    \<and> (run c (map (\<lambda>evals. DoCheckpoint True evals False) evs) (fr, t)
          = Some (Inr (fr'', t'')) \<longrightarrow>
         cur_attempt (training_state t'')
           = cur_attempt (training_state t) + int (length evs))"
  using assms run_lr_decay_one [of c acts fr t fr' t']
    run_failed_checkpoints_lr_decay_one [of c evs fr t fr'' t'']
  by (auto simp: check_lr_decay_def)

text \<open>The theorem over three failed checkpoints of a task with \<open>lr_decay = 1.0\<close>.\<close>

theorem no_decay_at_lr_decay_one_witness:
  "lr_decay (demo_task\<lparr>lr_decay := 1\<rparr>) = 1
   \<and> run demo_collab (map (\<lambda>evals. DoCheckpoint True evals False) [[], [Score 3], []])
       (NotStarted, demo_task\<lparr>lr_decay := 1\<rparr>)
     = Some (Inr (NotStarted,
         demo_task\<lparr>lr_decay := 1,
           training_state := (init_training_state 7)\<lparr>cur_attempt := 3\<rparr>,
           effects := [NewDev, Print ''> Checkpoint'', ReportDev,
                       NewDev, SetDevScore 1 3, Print ''> Checkpoint'', ReportDev,
                       NewDev, Print ''> Checkpoint'', ReportDev]\<rparr>))
   \<and> num_times_lr_decayed (training_state demo_task) = 0
   \<and> cur_attempt ((init_training_state 7)\<lparr>cur_attempt := 3\<rparr>)
       = cur_attempt (training_state demo_task) + int (length [[], [Score 3], [] :: dev_eval list])"
proof -
  let ?t = "demo_task\<lparr>lr_decay := 1\<rparr>"
  let ?t' = "demo_task\<lparr>lr_decay := 1,
           training_state := (init_training_state 7)\<lparr>cur_attempt := 3\<rparr>,
           effects := [NewDev, Print ''> Checkpoint'', ReportDev,
                       NewDev, SetDevScore 1 3, Print ''> Checkpoint'', ReportDev,
                       NewDev, Print ''> Checkpoint'', ReportDev]\<rparr>"
  have l: "lr_decay ?t = 1" by simp
  have rn: "run demo_collab (map (\<lambda>evals. DoCheckpoint True evals False) [[], [Score 3], []])
              (NotStarted, ?t) = Some (Inr (NotStarted, ?t'))"
    by (simp add: eval_defs)
  from no_decay_at_lr_decay_one [OF l, of demo_collab
         "map (\<lambda>evals. DoCheckpoint True evals False) [[], [Score 3], []]" NotStarted NotStarted ?t'
         "[[], [Score 3], []]" NotStarted ?t'] rn
  show ?thesis by (simp add: demo_task_def init_training_state_def)
qed

end
